theory Spec2Isabelle
  imports Complex_Main "HOL-Library.Sublist"
begin

section \<open>Strings\<close>

text \<open>
  Python strings are modelled as \<^typ>\<open>string\<close>. Only the ASCII behaviour of the string
  methods used by the sources is modelled (\<open>str.strip\<close>, \<open>str.upper\<close>, \<open>str.replace\<close>,
  \<open>str.join\<close>, \<open>str(int)\<close>).
\<close>

definition newline :: char where
  "newline = CHR 0x0A"

definition is_digit :: "char \<Rightarrow> bool" where
  "is_digit ch = (48 \<le> (of_char ch :: nat) \<and> (of_char ch :: nat) \<le> 57)"

definition digit_char :: "nat \<Rightarrow> char" where
  "digit_char d = char_of (48 + d)"

definition digit_val :: "char \<Rightarrow> nat" where
  "digit_val ch = of_char ch - 48"

text \<open>\<open>str(n)\<close> for a non-negative integer: its decimal digits, no leading zero.\<close>

fun str_nat :: "nat \<Rightarrow> string" where
  "str_nat n = (if n < 10 then [digit_char n]
                else str_nat (n div 10) @ [digit_char (n mod 10)])"

declare str_nat.simps [simp del]

text \<open>\<open>int(s)\<close> for a string of ASCII digits (the empty string is never passed).\<close>

definition int_of_digits :: "string \<Rightarrow> nat" where
  "int_of_digits s = foldl (\<lambda>a ch. 10 * a + digit_val ch) 0 s"

text \<open>Zero padding to a width, as \<open>%02d\<close> and \<open>%04d\<close> do.\<close>

definition zpad :: "nat \<Rightarrow> nat \<Rightarrow> string" where
  "zpad w n = replicate (w - length (str_nat n)) (CHR ''0'') @ str_nat n"

text \<open>\<open>"\n".join(lines)\<close>.\<close>

fun join_nl :: "string list \<Rightarrow> string" where
  "join_nl [] = []"
| "join_nl [l] = l"
| "join_nl (l # m # ls) = l @ newline # join_nl (m # ls)"

text \<open>\<open>s.split("\n")\<close>: the lines of a text.\<close>

fun split_nl :: "string \<Rightarrow> string list" where
  "split_nl [] = [[]]"
| "split_nl (ch # s) =
     (if ch = newline then [] # split_nl s
      else (case split_nl s of
              [] \<Rightarrow> [[ch]]
            | l # ls \<Rightarrow> (ch # l) # ls))"

text \<open>\<open>s.replace("\n", " ")\<close>.\<close>

definition replace_nl :: "string \<Rightarrow> string" where
  "replace_nl s = map (\<lambda>ch. if ch = newline then CHR '' '' else ch) s"

definition upper_char :: "char \<Rightarrow> char" where
  "upper_char ch = (if 97 \<le> (of_char ch :: nat) \<and> (of_char ch :: nat) \<le> 122
                    then char_of ((of_char ch :: nat) - 32) else ch)"

definition upper :: "string \<Rightarrow> string" where
  "upper s = map upper_char s"

text \<open>
  Letters compared without regard to case, as the regular expressions of the \<open>decimal\<close>
  module do: the character codes with the upper-case letters moved onto the lower-case ones.
\<close>

definition lower_code :: "char \<Rightarrow> nat" where
  "lower_code ch = (if 65 \<le> (of_char ch :: nat) \<and> (of_char ch :: nat) \<le> 90
                    then (of_char ch :: nat) + 32 else of_char ch)"

definition same_ci :: "string \<Rightarrow> string \<Rightarrow> bool" where
  "same_ci a b = (map lower_code a = map lower_code b)"

definition is_space :: "char \<Rightarrow> bool" where
  "is_space ch = ((9 \<le> (of_char ch :: nat) \<and> (of_char ch :: nat) \<le> 13)
                  \<or> (28 \<le> (of_char ch :: nat) \<and> (of_char ch :: nat) \<le> 32))"

definition strip :: "string \<Rightarrow> string" where
  "strip s = rev (dropWhile is_space (rev (dropWhile is_space s)))"


section \<open>Errors\<close>

text \<open>
  The exceptions the modelled functions can raise. \<open>InvalidOperation\<close> is
  \<open>decimal.InvalidOperation\<close>, which the specification calls \<open>InvalidAmount\<close>.
  \<open>ExpatError\<close> is what \<open>minidom.parseString\<close> raises on text that is not well-formed.
  \<open>UnsupportedMessageType\<close> is named by the specification only: no path of the sources
  raises it.
\<close>

datatype error =
    KeyError
  | InvalidOperation
  | AttributeError
  | ExpatError
  | UnsupportedMessageType


section \<open>Decimal amounts\<close>

text \<open>
  A \<open>decimal.Decimal\<close>: a finite number is a sign (\<open>True\<close> for negative), a coefficient and
  an exponent, denoting \<open>\<plusminus> coefficient * 10 ^ exponent\<close>; the special values are the
  infinities and the quiet and signalling NaNs (sign, signalling flag, diagnostic payload).
\<close>

datatype decimal =
    Finite bool nat int
  | Infinity bool
  | NaN bool bool nat

text \<open>
  \<open>Decimal(text)\<close>: the text is stripped, underscores are removed, and the rest must be
  an optional sign followed by a number with an optional fraction and exponent, by
  \<open>Inf\<close>/\<open>Infinity\<close>, or by \<open>NaN\<close>/\<open>sNaN\<close> with optional diagnostic digits, letters in any case.
  Anything else raises \<open>InvalidOperation\<close>.
\<close>

definition parse_exponent :: "string \<Rightarrow> int option" where
  "parse_exponent r =
     (case r of
        [] \<Rightarrow> Some 0
      | ch # r1 \<Rightarrow>
          if \<not> same_ci [ch] ''e'' then None
          else (case r1 of
                  [] \<Rightarrow> None
                | sg # r2 \<Rightarrow>
                    if sg = CHR ''-'' then
                      (if r2 \<noteq> [] \<and> list_all is_digit r2
                       then Some (- int (int_of_digits r2)) else None)
                    else if sg = CHR ''+'' then
                      (if r2 \<noteq> [] \<and> list_all is_digit r2
                       then Some (int (int_of_digits r2)) else None)
                    else
                      (if list_all is_digit r1
                       then Some (int (int_of_digits r1)) else None)))"

definition parse_number :: "bool \<Rightarrow> string \<Rightarrow> decimal option" where
  "parse_number sign body =
     (let intpart = takeWhile is_digit body;
          r1 = dropWhile is_digit body;
          has_dot = (r1 \<noteq> [] \<and> hd r1 = CHR ''.'');
          fracpart = (if has_dot then takeWhile is_digit (tl r1) else []);
          r2 = (if has_dot then dropWhile is_digit (tl r1) else r1)
      in if intpart = [] \<and> fracpart = [] then None
         else (case parse_exponent r2 of
                 None \<Rightarrow> None
               | Some ex \<Rightarrow>
                   Some (Finite sign (int_of_digits (intpart @ fracpart))
                                (ex - int (length fracpart)))))"

definition parse_special :: "bool \<Rightarrow> string \<Rightarrow> decimal option" where
  "parse_special sign body =
     (if same_ci body ''inf'' \<or> same_ci body ''infinity'' then Some (Infinity sign)
      else if same_ci (take 3 body) ''nan'' \<and> list_all is_digit (drop 3 body)
        then Some (NaN sign False (int_of_digits (drop 3 body)))
      else if same_ci (take 4 body) ''snan'' \<and> list_all is_digit (drop 4 body)
        then Some (NaN sign True (int_of_digits (drop 4 body)))
      else None)"

definition Decimal_of_str :: "string \<Rightarrow> error + decimal" where
  "Decimal_of_str txt =
     (let s = filter (\<lambda>ch. ch \<noteq> CHR ''_'') (strip txt);
          sign = (s \<noteq> [] \<and> hd s = CHR ''-'');
          body = (if s \<noteq> [] \<and> (hd s = CHR ''-'' \<or> hd s = CHR ''+'') then tl s else s)
      in case parse_number sign body of
           Some d \<Rightarrow> Inr d
         | None \<Rightarrow> (case parse_special sign body of
                       Some d \<Rightarrow> Inr d
                     | None \<Rightarrow> Inl InvalidOperation))"

text \<open>
  The default arithmetic context: 28 digits of precision, exponents up to \<open>999999\<close>,
  \<open>InvalidOperation\<close> trapped (raised), \<open>Inexact\<close> and \<open>Rounded\<close> not trapped.
\<close>

definition prec :: nat where
  "prec = 28"

definition Emax :: int where
  "Emax = 999999"

text \<open>
  The coefficient of a finite non-zero decimal brought to exponent \<open>-2\<close> with
  \<open>ROUND_HALF_UP\<close>: zeros are appended when the exponent is at least \<open>-2\<close>; otherwise the
  digits beyond the second fractional one are dropped and the coefficient is incremented
  when the first dropped digit is one of \<open>5\<close> to \<open>9\<close>.
\<close>

definition rescale_cents :: "nat \<Rightarrow> int \<Rightarrow> nat" where
  "rescale_cents c e =
     (if - 2 \<le> e then c * 10 ^ nat (e + 2)
      else (let k = nat (- 2 - e) in
            c div 10 ^ k + (if 5 \<le> (c div 10 ^ (k - 1)) mod 10 then 1 else 0)))"

text \<open>
  \<open>d.quantize(Decimal('0.01'), rounding=ROUND_HALF_UP)\<close>. A quiet NaN is returned (its
  payload cut to the precision), a signalling NaN and an infinity raise, and so does a
  finite number whose result would need more than \<open>prec\<close> digits.
\<close>

definition quantize_cents :: "decimal \<Rightarrow> error + decimal" where
  "quantize_cents d =
     (case d of
        NaN s signalling payload \<Rightarrow>
          if signalling then Inl InvalidOperation
          else Inr (NaN s False (payload mod 10 ^ prec))
      | Infinity s \<Rightarrow> Inl InvalidOperation
      | Finite s c e \<Rightarrow>
          if c = 0 then Inr (Finite s 0 (- 2))
          else if e + int (length (str_nat c)) - 1 > Emax then Inl InvalidOperation
          else if e + int (length (str_nat c)) - 1 + 2 + 1 > int prec then Inl InvalidOperation
          else if length (str_nat (rescale_cents c e)) > prec then Inl InvalidOperation
          else Inr (Finite s (rescale_cents c e) (- 2)))"

text \<open>
  \<open>format(d, 'f')\<close>: the sign, the digits before the decimal point (at least one), and
  the point with the digits after it when there are any. No grouping, no exponent.
\<close>

definition format_f :: "decimal \<Rightarrow> string" where
  "format_f d =
     (case d of
        NaN s signalling payload \<Rightarrow>
          (if s then ''-'' else '''') @ (if signalling then ''sNaN'' else ''NaN'')
            @ (if payload = 0 then '''' else str_nat payload)
      | Infinity s \<Rightarrow> (if s then ''-'' else '''') @ ''Infinity''
      | Finite s c e0 \<Rightarrow>
          (let e = (if c = 0 \<and> 0 < e0 then 0 else e0);
               digits = str_nat c;
               dotplace = e + int (length digits);
               intpart = (if dotplace < 0 then ''0''
                          else if dotplace > int (length digits)
                            then digits @ replicate (nat (dotplace - int (length digits))) (CHR ''0'')
                          else if take (nat dotplace) digits = [] then ''0''
                          else take (nat dotplace) digits);
               fracpart = (if dotplace < 0 then replicate (nat (- dotplace)) (CHR ''0'') @ digits
                           else if dotplace > int (length digits) then []
                           else drop (nat dotplace) digits)
           in (if s then ''-'' else '''') @ intpart
                @ (if fracpart = [] then [] else CHR ''.'' # fracpart)))"

text \<open>\<open>swift_messages.format_amount\<close>: the currency argument is not used.\<close>

definition format_amount :: "decimal \<Rightarrow> string \<Rightarrow> error + string" where
  "format_amount amount currency =
     (case quantize_cents amount of
        Inl err \<Rightarrow> Inl err
      | Inr q \<Rightarrow> Inr (format_f q))"

text \<open>\<open>swift_alliance_streamlit.format_decimal\<close>.\<close>

definition format_decimal :: "decimal \<Rightarrow> error + string" where
  "format_decimal v =
     (case quantize_cents v of
        Inl err \<Rightarrow> Inl err
      | Inr q \<Rightarrow> Inr (format_f q))"


section \<open>Dates and the readings of the clock and of the random source\<close>

record date =
  year :: nat
  month :: nat
  day :: nat

record datetime = date +
  hour :: nat
  minute :: nat
  second :: nat

definition is_leap :: "nat \<Rightarrow> bool" where
  "is_leap y = (y mod 4 = 0 \<and> (if y mod 100 = 0 then y mod 400 = 0 else True))"

definition days_in_month :: "nat \<Rightarrow> nat \<Rightarrow> nat" where
  "days_in_month y m =
     (if m = 2 then (if is_leap y then 29 else 28)
      else if m = 4 \<or> m = 6 \<or> m = 9 \<or> m = 11 then 30 else 31)"

text \<open>
  \<open>datetime.date.fromisoformat\<close> on the form \<open>YYYY-MM-DD\<close>, the one every Python version
  that has the function accepts; \<open>None\<close> stands for the \<open>ValueError\<close> the source catches.
  This is the function of Python 3.7 to 3.10. From Python 3.11 on it also reads the other
  ISO 8601 forms of a date (\<open>20240315\<close>, \<open>2024-W11-5\<close>); here these are \<open>None\<close>, as
  under the earlier versions, and the date read from the clock is printed in their place.
\<close>

definition fromisoformat :: "string \<Rightarrow> date option" where
  "fromisoformat s =
     (if length s = 10 \<and> s ! 4 = CHR ''-'' \<and> s ! 7 = CHR ''-''
         \<and> list_all is_digit (take 4 s) \<and> list_all is_digit (take 2 (drop 5 s))
         \<and> list_all is_digit (drop 8 s)
      then (let y = int_of_digits (take 4 s);
                m = int_of_digits (take 2 (drop 5 s));
                d = int_of_digits (drop 8 s)
            in if 1 \<le> y \<and> 1 \<le> m \<and> m \<le> 12 \<and> 1 \<le> d \<and> d \<le> days_in_month y m
               then Some \<lparr>year = y, month = m, day = d\<rparr> else None)
      else None)"

text \<open>\<open>d.strftime("%y%m%d")\<close> and \<open>d.isoformat()\<close>.\<close>

definition strftime_yymmdd :: "'a date_scheme \<Rightarrow> string" where
  "strftime_yymmdd d = zpad 2 (year d mod 100) @ zpad 2 (month d) @ zpad 2 (day d)"

definition isoformat :: "'a date_scheme \<Rightarrow> string" where
  "isoformat d = zpad 4 (year d) @ ''-'' @ zpad 2 (month d) @ ''-'' @ zpad 2 (day d)"

text \<open>
  \<open>t.strftime("%Y%m%d%H%M%S")\<close> and \<open>t.replace(microsecond=0).isoformat()\<close> for a
  \<open>datetime\<close>.
\<close>

definition strftime_compact :: "datetime \<Rightarrow> string" where
  "strftime_compact t =
     zpad 4 (year t) @ zpad 2 (month t) @ zpad 2 (day t)
       @ zpad 2 (hour t) @ zpad 2 (minute t) @ zpad 2 (second t)"

definition isoformat_seconds :: "datetime \<Rightarrow> string" where
  "isoformat_seconds t =
     isoformat t @ ''T'' @ zpad 2 (hour t) @ '':'' @ zpad 2 (minute t) @ '':'' @ zpad 2 (second t)"

text \<open>
  The sources read the clock (\<open>date.today()\<close>, \<open>datetime.utcnow()\<close>) and the random source
  (\<open>uuid.uuid4()\<close>). Each function of the model takes the results of its reads as a record,
  one field for each call in the order of the source; a \<open>uuid\<close> field is \<open>str(uuid.uuid4())\<close>.
\<close>

record mt103_reads =
  today_default :: date
  uuid_default :: string
  today_fallback :: date

record pain001_reads =
  uuid_msgid :: string
  now_credttm :: datetime
  now_pmtinfid :: datetime
  uuid_endtoend :: string


section \<open>The payment dictionary\<close>

text \<open>
  The \<open>payment\<close> dictionary: a field is \<open>None\<close> when the key is absent (for
  \<open>beneficiary_bic\<close> also when the stored value is Python's \<open>None\<close>). The amount is stored
  as text or as a \<open>Decimal\<close>.
\<close>

datatype amount_value = AmountStr string | AmountDecimal decimal

record payment =
  ordering_account :: "string option"
  ordering_name :: "string option"
  beneficiary_account :: "string option"
  beneficiary_name :: "string option"
  beneficiary_bic :: "string option"
  amount :: "amount_value option"
  currency :: "string option"
  value_date :: "string option"
  remittance_info :: "string option"
  reference :: "string option"

text \<open>\<open>d.get(key, default)\<close> on a field.\<close>

definition get_or :: "'a option \<Rightarrow> 'a \<Rightarrow> 'a" where
  "get_or field dflt = (case field of None \<Rightarrow> dflt | Some v \<Rightarrow> v)"

text \<open>The truth of \<open>d.get(key)\<close> in a condition: present and not empty.\<close>

definition truthy :: "string option \<Rightarrow> bool" where
  "truthy field = (case field of None \<Rightarrow> False | Some v \<Rightarrow> v \<noteq> [])"

text \<open>\<open>Decimal(payment['amount'])\<close>: a \<open>Decimal\<close> is taken as it is, text is parsed.\<close>

definition Decimal :: "amount_value \<Rightarrow> error + decimal" where
  "Decimal v = (case v of AmountStr s \<Rightarrow> Decimal_of_str s | AmountDecimal d \<Rightarrow> Inr d)"


section \<open>\<open>swift_messages.generate_mt103\<close>\<close>

text \<open>
  \<open>mt103_lines\<close> is the list \<open>lines\<close> the source builds; \<open>generate_mt103\<close> joins it with
  newlines. The amount is converted first, so a bad amount raises before any line exists.
\<close>

definition mt103_lines :: "mt103_reads \<Rightarrow> payment \<Rightarrow> error + string list" where
  "mt103_lines rd p =
     (case amount p of
        None \<Rightarrow> Inl KeyError
      | Some a \<Rightarrow>
          (case Decimal a of
             Inl err \<Rightarrow> Inl err
           | Inr amt \<Rightarrow>
               (let ccy = get_or (currency p) ''USD'';
                    vdate = get_or (value_date p) (isoformat (today_default rd));
                    ref = get_or (reference p) (take 12 (upper (uuid_default rd)));
                    remittance = get_or (remittance_info p) '''';
                    vd = (case fromisoformat vdate of
                            Some d \<Rightarrow> strftime_yymmdd d
                          | None \<Rightarrow> strftime_yymmdd (today_fallback rd))
                in case format_amount amt ccy of
                     Inl err \<Rightarrow> Inl err
                   | Inr fa \<Rightarrow>
                       Inr ([''{1:F01SWIFTSIMULATORXXXX0000000000}'',
                             ''{2:O1031200SWIFTSIMULATORXXXX0000000000}'',
                             ''{4:'',
                             '':20:'' @ ref,
                             '':23B:CRED'',
                             '':32A:'' @ vd @ ccy @ fa,
                             '':50K:'' @ get_or (ordering_name p) '''' @ '' /''
                               @ get_or (ordering_account p) '''',
                             '':59:'' @ get_or (beneficiary_name p) '''' @ '' /''
                               @ get_or (beneficiary_account p) '''']
                            @ (if remittance \<noteq> [] then ['':70:'' @ replace_nl remittance] else [])
                            @ ['':71A:SHA'', ''-}'']))))"

definition generate_mt103 :: "mt103_reads \<Rightarrow> payment \<Rightarrow> error + string" where
  "generate_mt103 rd p =
     (case mt103_lines rd p of
        Inl err \<Rightarrow> Inl err
      | Inr ls \<Rightarrow> Inr (join_nl ls))"


section \<open>The pain.001 documents\<close>

text \<open>
  An \<open>xml.etree.ElementTree\<close> element: tag, attributes, text (\<open>None\<close> when never set) and
  children in document order.
\<close>

datatype xml = Element string "(string \<times> string) list" "string option" "xml list"

definition NS :: string where
  "NS = ''urn:iso:std:iso:20022:tech:xsd:pain.001.001.03''"

text \<open>An element that only carries text, as \<open>ET.SubElement(parent, tag).text = s\<close> makes.\<close>

definition leaf :: "string \<Rightarrow> string \<Rightarrow> xml" where
  "leaf tg s = Element tg [] (Some s) []"

text \<open>
  The tree \<open>swift_messages.generate_pain001\<close> builds before printing it. The amount is
  converted and formatted anew for each of the two \<open>CtrlSum\<close> elements and for \<open>InstdAmt\<close>.
\<close>

definition pain001_tree :: "pain001_reads \<Rightarrow> payment \<Rightarrow> error + xml" where
  "pain001_tree rd p =
     (let format_payment_amount =
            (case amount p of
               None \<Rightarrow> Inl KeyError
             | Some a \<Rightarrow> (case Decimal a of
                            Inl err \<Rightarrow> Inl err
                          | Inr amt \<Rightarrow> format_amount amt (get_or (currency p) ''USD'')))
      in case format_payment_amount of
           Inl err \<Rightarrow> Inl err
         | Inr ctrl_sum_hdr \<Rightarrow>
        (case format_payment_amount of
           Inl err \<Rightarrow> Inl err
         | Inr ctrl_sum_pmt \<Rightarrow>
        (case format_payment_amount of
           Inl err \<Rightarrow> Inl err
         | Inr instd_amt \<Rightarrow>
             Inr (Element ''CstmrCdtTrfInitn'' [(''xmlns'', NS)] None
                   [Element ''GrpHdr'' [] None
                      [leaf ''MsgId'' (get_or (reference p) (uuid_msgid rd)),
                       leaf ''CreDtTm'' (isoformat_seconds (now_credttm rd) @ ''Z''),
                       leaf ''NbOfTxs'' ''1'',
                       leaf ''CtrlSum'' ctrl_sum_hdr],
                    Element ''PmtInf'' [] None
                      [leaf ''PmtInfId'' (''PMT-'' @ strftime_compact (now_pmtinfid rd)),
                       leaf ''PmtMtd'' ''TRF'',
                       leaf ''NbOfTxs'' ''1'',
                       leaf ''CtrlSum'' ctrl_sum_pmt,
                       Element ''CdtTrfTxInf'' [] None
                        ([Element ''PmtId'' [] None
                            [leaf ''EndToEndId'' (get_or (reference p) (uuid_endtoend rd))],
                          Element ''Amt'' [] None
                            [Element ''InstdAmt'' [(''Ccy'', get_or (currency p) ''USD'')]
                               (Some instd_amt) []]]
                         @ (if truthy (beneficiary_bic p)
                            then [Element ''CdtrAgt'' [] None
                                    [Element ''FinInstnId'' [] None
                                       [leaf ''BIC'' (get_or (beneficiary_bic p) '''')]]]
                            else [])
                         @ [Element ''Cdtr'' [] None
                              [leaf ''Nm'' (get_or (beneficiary_name p) '''')],
                            Element ''CdtrAcct'' [] None
                              [Element ''Id'' [] None
                                 [leaf ''IBAN'' (get_or (beneficiary_account p) '''')]],
                            Element ''Dbtr'' [] None
                              [leaf ''Nm'' (get_or (ordering_name p) '''')],
                            Element ''DbtrAcct'' [] None
                              [Element ''Id'' [] None
                                 [leaf ''IBAN'' (get_or (ordering_account p) '''')]]]
                         @ (if truthy (remittance_info p)
                            then [Element ''RmtInf'' [] None
                                    [leaf ''Ustrd'' (get_or (remittance_info p) '''')]]
                            else []))]]))))"

text \<open>
  The printing of a tree (\<open>ET.tostring\<close>, \<open>minidom.parseString\<close>, \<open>toprettyxml\<close>) is
  library code that depends on the tree alone and may raise; it is the parameter
  \<open>toprettyxml\<close> of the two generators.
\<close>

definition generate_pain001 ::
  "(xml \<Rightarrow> error + string) \<Rightarrow> pain001_reads \<Rightarrow> payment \<Rightarrow> error + string" where
  "generate_pain001 toprettyxml rd p =
     (case pain001_tree rd p of
        Inl err \<Rightarrow> Inl err
      | Inr doc \<Rightarrow> toprettyxml doc)"

text \<open>
  \<open>swift_alliance_streamlit.generate_pain001_xml\<close>: the amount is passed to
  \<open>format_decimal\<close> without conversion, so text raises \<open>AttributeError\<close>; there is no
  creditor agent.
\<close>

definition format_decimal_field :: "payment \<Rightarrow> error + string" where
  "format_decimal_field p =
     (case amount p of
        None \<Rightarrow> Inl KeyError
      | Some (AmountStr s) \<Rightarrow> Inl AttributeError
      | Some (AmountDecimal d) \<Rightarrow> format_decimal d)"

definition pain001_xml_tree :: "pain001_reads \<Rightarrow> payment \<Rightarrow> error + xml" where
  "pain001_xml_tree rd p =
     (case format_decimal_field p of
        Inl err \<Rightarrow> Inl err
      | Inr ctrl_sum_hdr \<Rightarrow>
     (case format_decimal_field p of
        Inl err \<Rightarrow> Inl err
      | Inr ctrl_sum_pmt \<Rightarrow>
     (case format_decimal_field p of
        Inl err \<Rightarrow> Inl err
      | Inr instd_amt \<Rightarrow>
          Inr (Element ''CstmrCdtTrfInitn'' [(''xmlns'', NS)] None
                [Element ''GrpHdr'' [] None
                   [leaf ''MsgId'' (get_or (reference p) (uuid_msgid rd)),
                    leaf ''CreDtTm'' (isoformat_seconds (now_credttm rd) @ ''Z''),
                    leaf ''NbOfTxs'' ''1'',
                    leaf ''CtrlSum'' ctrl_sum_hdr],
                 Element ''PmtInf'' [] None
                   [leaf ''PmtInfId'' (''PMT-'' @ strftime_compact (now_pmtinfid rd)),
                    leaf ''PmtMtd'' ''TRF'',
                    leaf ''NbOfTxs'' ''1'',
                    leaf ''CtrlSum'' ctrl_sum_pmt,
                    Element ''CdtTrfTxInf'' [] None
                     ([Element ''PmtId'' [] None
                         [leaf ''EndToEndId'' (get_or (reference p) (uuid_endtoend rd))],
                       Element ''Amt'' [] None
                         [Element ''InstdAmt'' [(''Ccy'', get_or (currency p) ''USD'')]
                            (Some instd_amt) []],
                       Element ''Cdtr'' [] None
                         [leaf ''Nm'' (get_or (beneficiary_name p) '''')],
                       Element ''CdtrAcct'' [] None
                         [Element ''Id'' [] None
                            [leaf ''IBAN'' (get_or (beneficiary_account p) '''')]],
                       Element ''Dbtr'' [] None
                         [leaf ''Nm'' (get_or (ordering_name p) '''')],
                       Element ''DbtrAcct'' [] None
                         [Element ''Id'' [] None
                            [leaf ''IBAN'' (get_or (ordering_account p) '''')]]]
                      @ (if truthy (remittance_info p)
                         then [Element ''RmtInf'' [] None
                                 [leaf ''Ustrd'' (get_or (remittance_info p) '''')]]
                         else []))]]))))"

definition generate_pain001_xml ::
  "(xml \<Rightarrow> error + string) \<Rightarrow> pain001_reads \<Rightarrow> payment \<Rightarrow> error + string" where
  "generate_pain001_xml toprettyxml rd p =
     (case pain001_xml_tree rd p of
        Inl err \<Rightarrow> Inl err
      | Inr doc \<Rightarrow> toprettyxml doc)"

text \<open>
  Reading a document: every element of a tree in document order, and the texts of the
  elements that carry a given tag.
\<close>

fun elements :: "xml \<Rightarrow> xml list" where
  "elements (Element tg attrs txt kids) =
     Element tg attrs txt kids # concat (map elements kids)"

fun tag_of :: "xml \<Rightarrow> string" where
  "tag_of (Element tg attrs txt kids) = tg"

fun text_of :: "xml \<Rightarrow> string option" where
  "text_of (Element tg attrs txt kids) = txt"

definition texts_of :: "string \<Rightarrow> xml \<Rightarrow> string option list" where
  "texts_of tg doc = map text_of (filter (\<lambda>el. tag_of el = tg) (elements doc))"


section \<open>\<open>swift_alliance_streamlit\<close>: the MT composer\<close>

text \<open>
  The \<open>sender_info\<close> dictionary, a field being \<open>None\<close> when the key is absent, and the
  table of message templates (the required tags of each type; the example texts are left
  out).
\<close>

record sender_info =
  bic :: "string option"
  bank_name :: "string option"
  bank_address :: "string option"
  account_name :: "string option"
  account_iban :: "string option"

definition MT_TEMPLATES :: "(string \<times> string list) list" where
  "MT_TEMPLATES =
     [(''MT103'', ['':20:'', '':32A:'', '':50K:'', '':59:'', '':71A:'']),
      (''MT199'', ['':20:'', '':21:'', '':79:'']),
      (''MT700'', ['':20:'', '':40A:'', '':31D:'', '':50:'', '':59:'', '':44A:'', '':77B:'']),
      (''MT760'', ['':20:'', '':21:'', '':32B:'', '':50:'', '':59:'', '':77U:'']),
      (''MT799'', ['':20:'', '':21:'', '':79:''])]"

text \<open>How an f-string prints \<open>d.get(key)\<close>: the text, or \<open>None\<close> for an absent key.\<close>

definition str_of_get :: "string option \<Rightarrow> string" where
  "str_of_get field = (case field of None \<Rightarrow> ''None'' | Some v \<Rightarrow> v)"

text \<open>
  \<open>build_mt_message\<close>. The dictionary \<open>fields\<close> (here \<open>flds\<close>) is an association list in insertion order.
  The clock is read only when \<open>reference\<close> is \<open>None\<close> or empty. The message type is not
  checked against any table.
\<close>

definition mt_message_lines ::
  "datetime \<Rightarrow> string \<Rightarrow> (string \<times> string) list \<Rightarrow> sender_info \<Rightarrow> string option \<Rightarrow> string list" where
  "mt_message_lines now msg_type flds si ref_opt =
     (let ref = (if truthy ref_opt then get_or ref_opt ''''
                 else take 3 msg_type @ strftime_compact now)
      in [''{1:F01'' @ get_or (bic si) ''UNKNOWN'' @ ''XXXX0000000000}'',
          ''{2:O'' @ msg_type @ ''1200'' @ get_or (bic si) ''UNKNOWN'' @ ''XXXX0000000000}'',
          ''{4:'',
          '':20:'' @ ref]
         @ map (\<lambda>(k, v). k @ v) flds
         @ ['':86:Sender Details'',
            '' /BANK/'' @ str_of_get (bank_name si),
            '' /ADDR/'' @ str_of_get (bank_address si),
            '' /ACCTNAME/'' @ str_of_get (account_name si),
            '' /ACCTIBAN/'' @ str_of_get (account_iban si),
            ''-}''])"

definition build_mt_message ::
  "datetime \<Rightarrow> string \<Rightarrow> (string \<times> string) list \<Rightarrow> sender_info \<Rightarrow> string option \<Rightarrow> string" where
  "build_mt_message now msg_type flds si ref_opt =
     join_nl (mt_message_lines now msg_type flds si ref_opt)"

text \<open>\<open>d[k] = v\<close> and \<open>d.update(other)\<close> on a dictionary kept in insertion order.\<close>

fun dict_set :: "(string \<times> string) list \<Rightarrow> string \<Rightarrow> string \<Rightarrow> (string \<times> string) list" where
  "dict_set [] k v = [(k, v)]"
| "dict_set ((k0, v0) # kvs) k v =
     (if k0 = k then (k, v) # kvs else (k0, v0) # dict_set kvs k v)"

fun dict_update :: "(string \<times> string) list \<Rightarrow> (string \<times> string) list \<Rightarrow> (string \<times> string) list" where
  "dict_update d [] = d"
| "dict_update d ((k, v) # other) = dict_update (dict_set d k v) other"

text \<open>
  The inputs of the Compose handler: the widgets of the page and the dictionary
  \<open>mt_fields\<close> parsed from the tag lines the user typed.
\<close>

record compose_form =
  form_msg_type :: string
  form_ordering_name :: string
  form_ordering_account :: string
  form_beneficiary_name :: string
  form_beneficiary_account :: string
  form_amount_text :: string
  form_currency :: string
  form_remittance :: string
  form_reference :: string
  form_mt_fields :: "(string \<times> string) list"
  form_sender_bic :: string
  form_sender_bank :: string
  form_sender_addr :: string
  form_sender_acct_name :: string
  form_sender_iban :: string

record compose_reads =
  today_32a :: date
  now_reference :: datetime
  today_value_date :: date
  xml_reads :: pain001_reads

definition form_sender_info :: "compose_form \<Rightarrow> sender_info" where
  "form_sender_info f =
     \<lparr>bic = Some (form_sender_bic f), bank_name = Some (form_sender_bank f),
      bank_address = Some (form_sender_addr f), account_name = Some (form_sender_acct_name f),
      account_iban = Some (form_sender_iban f)\<rparr>"

text \<open>\<open>mt_fields or {tag: remittance}\<close>: the caller's dictionary unless it is empty.\<close>

definition fields_or :: "(string \<times> string) list \<Rightarrow> (string \<times> string) list \<Rightarrow> (string \<times> string) list" where
  "fields_or mt_fields dflt = (if mt_fields \<noteq> [] then mt_fields else dflt)"

text \<open>
  The Compose handler up to \<open>message_body\<close>. A bad amount text stops the handler with
  the message \<open>Invalid amount\<close>. For \<open>MT199\<close> and \<open>MT799\<close> the type passed on is
  \<open>msg_type.replace("MT", "")\<close>, the text after the first two letters. A message type that
  is none of the five MT types takes the last branch, which builds the pain.001 document.
\<close>

definition compose ::
  "(xml \<Rightarrow> error + string) \<Rightarrow> compose_reads \<Rightarrow> compose_form \<Rightarrow> error + string" where
  "compose toprettyxml rd f =
     (case Decimal_of_str (strip (form_amount_text f)) of
        Inl err \<Rightarrow> Inl err
      | Inr amt \<Rightarrow>
          if form_msg_type f = ''MT103'' then
            (case format_decimal amt of
               Inl err \<Rightarrow> Inl err
             | Inr fa \<Rightarrow>
                 Inr (build_mt_message (now_reference rd) ''103''
                        (dict_update
                           [('':32A:'', strftime_yymmdd (today_32a rd) @ form_currency f @ fa),
                            ('':50K:'', form_ordering_name f @ '' /'' @ form_ordering_account f),
                            ('':59:'', form_beneficiary_name f @ '' /''
                               @ form_beneficiary_account f),
                            ('':70:'', form_remittance f)]
                           (form_mt_fields f))
                        (form_sender_info f) (Some (form_reference f))))
          else if form_msg_type f = ''MT199'' \<or> form_msg_type f = ''MT799'' then
            Inr (build_mt_message (now_reference rd) (drop 2 (form_msg_type f))
                   (fields_or (form_mt_fields f) [('':79:'', form_remittance f)])
                   (form_sender_info f) (Some (form_reference f)))
          else if form_msg_type f = ''MT700'' then
            Inr (build_mt_message (now_reference rd) ''700''
                   (fields_or (form_mt_fields f) [('':77B:'', form_remittance f)])
                   (form_sender_info f) (Some (form_reference f)))
          else if form_msg_type f = ''MT760'' then
            Inr (build_mt_message (now_reference rd) ''760''
                   (fields_or (form_mt_fields f) [('':77U:'', form_remittance f)])
                   (form_sender_info f) (Some (form_reference f)))
          else generate_pain001_xml toprettyxml (xml_reads rd)
                 \<lparr>ordering_account = Some (form_ordering_account f),
                  ordering_name = Some (form_ordering_name f),
                  beneficiary_account = Some (form_beneficiary_account f),
                  beneficiary_name = Some (form_beneficiary_name f),
                  beneficiary_bic = None,
                  amount = Some (AmountDecimal amt),
                  currency = Some (form_currency f),
                  value_date = Some (isoformat (today_value_date rd)),
                  remittance_info = Some (form_remittance f),
                  reference = Some (form_reference f)\<rparr>)"


section \<open>The formal output\<close>

text \<open>
  \<open>swift_alliance_streamlit.build_formal_output\<close> and
  \<open>streamlit_client.build_formal_text\<close>; \<open>now\<close> is the reading of \<open>datetime.utcnow()\<close>.
\<close>

definition build_formal_output ::
  "datetime \<Rightarrow> string \<Rightarrow> string \<Rightarrow> sender_info \<Rightarrow> string \<Rightarrow> string \<Rightarrow> string \<Rightarrow> string" where
  "build_formal_output now message_type message_body si start_ts end_ts account_number =
     join_nl
       [''INSTANT TYPE AND TRANSMISSION: INSTANT'',
        '''',
        ''MESSAGE HEADER'',
        ''Message Type: '' @ message_type,
        ''Reference: '' @ strftime_compact now,
        ''Sender BIC: '' @ get_or (bic si) '''',
        ''Sender Bank: '' @ get_or (bank_name si) '''',
        ''Sender Address: '' @ get_or (bank_address si) '''',
        ''Account Name: '' @ get_or (account_name si) '''',
        ''Account IBAN: '' @ get_or (account_iban si) '''',
        ''Selected Account (from system): '' @ account_number,
        '''',
        ''MESSAGE TEXT'',
        message_body,
        '''',
        ''MESSAGE HAS BEEN TRANSMITTED SUCCESSFULLY'',
        ''CONFIRMED & RECEIVED'',
        '''',
        ''Start Time: '' @ start_ts,
        ''End Time:   '' @ end_ts]"

definition build_formal_text ::
  "datetime \<Rightarrow> string \<Rightarrow> string \<Rightarrow> sender_info \<Rightarrow> string \<Rightarrow> string \<Rightarrow> string \<Rightarrow> string" where
  "build_formal_text now message_type message_body si start_ts end_ts account_number =
     join_nl
       [''INSTANT TYPE AND TRANSMISSION: INSTANT'',
        '''',
        ''MESSAGE HEADER'',
        ''Message Type: '' @ message_type,
        ''Reference: '' @ strftime_compact now,
        ''Sender BIC: '' @ get_or (bic si) '''',
        ''Sender Bank: '' @ get_or (bank_name si) '''',
        ''Sender Address: '' @ get_or (bank_address si) '''',
        ''Account Name: '' @ get_or (account_name si) '''',
        ''Account IBAN: '' @ get_or (account_iban si) '''',
        ''Selected Account: '' @ account_number,
        '''',
        ''MESSAGE TEXT'',
        message_body,
        '''',
        ''MESSAGE HAS BEEN TRANSMITTED SUCCESSFULLY'',
        ''CONFIRMED & RECEIVED'',
        '''',
        ''Start Time: '' @ start_ts,
        ''End Time:   '' @ end_ts]"


section \<open>Scenario data\<close>

text \<open>
  The payment of the specification's MT103 scenario (no value date, no remittance text),
  two sets of readings of the clock and of the random source that differ in every field,
  and the sender data the Streamlit page starts with.
\<close>

definition scenario_payment :: payment where
  "scenario_payment =
     \<lparr>ordering_account = Some ''CH970020620625170160K'',
      ordering_name = Some ''ANDRO AG'',
      beneficiary_account = Some ''DE89370400440532013000'',
      beneficiary_name = Some ''ACME CORP'',
      beneficiary_bic = None,
      amount = Some (AmountStr ''1500.5''),
      currency = Some ''USD'',
      value_date = None,
      remittance_info = None,
      reference = Some ''REF001''\<rparr>"

definition reads_a :: mt103_reads where
  "reads_a =
     \<lparr>today_default = \<lparr>year = 2024, month = 3, day = 15\<rparr>,
      uuid_default = ''0b0e7f2a-1c3d-4e5f-8a9b-0c1d2e3f4a5b'',
      today_fallback = \<lparr>year = 2024, month = 3, day = 15\<rparr>\<rparr>"


definition instant_a :: datetime where
  "instant_a = \<lparr>year = 2024, month = 3, day = 15, hour = 9, minute = 30, second = 5\<rparr>"

definition xml_reads_a :: pain001_reads where
  "xml_reads_a =
     \<lparr>uuid_msgid = ''0b0e7f2a-1c3d-4e5f-8a9b-0c1d2e3f4a5b'',
      now_credttm = instant_a,
      now_pmtinfid = instant_a,
      uuid_endtoend = ''6a5b4c3d-2e1f-4a0b-9c8d-7e6f5a4b3c2d''\<rparr>"


definition SWIFT_SENDER_INFO_DEFAULT :: sender_info where
  "SWIFT_SENDER_INFO_DEFAULT =
     \<lparr>bic = Some ''UBSWCHZH80A'',
      bank_name = Some ''UBS SWITZERLAND AG'',
      bank_address = Some ''PARADEPLATZ 6, 8098, ZURICH, SWITZERLAND'',
      account_name = Some ''ANDRO AG / FOR FURTHER FORSAN FOR FRUITS AND VEGETABLES EAST'',
      account_iban = Some ''CH970020620625170160K''\<rparr>"

definition scenario_form :: compose_form where
  "scenario_form =
     \<lparr>form_msg_type = ''MT103'',
      form_ordering_name = ''ANDRO AG'',
      form_ordering_account = ''CH970020620625170160K'',
      form_beneficiary_name = ''ACME CORP'',
      form_beneficiary_account = ''DE89370400440532013000'',
      form_amount_text = ''1500.5'',
      form_currency = ''USD'',
      form_remittance = [],
      form_reference = ''REF001'',
      form_mt_fields = [],
      form_sender_bic = ''UBSWCHZH80A'',
      form_sender_bank = ''UBS SWITZERLAND AG'',
      form_sender_addr = ''PARADEPLATZ 6, 8098, ZURICH, SWITZERLAND'',
      form_sender_acct_name = ''ANDRO AG / FOR FURTHER FORSAN FOR FRUITS AND VEGETABLES EAST'',
      form_sender_iban = ''CH970020620625170160K''\<rparr>"

definition compose_reads_a :: compose_reads where
  "compose_reads_a =
     \<lparr>today_32a = \<lparr>year = 2024, month = 3, day = 15\<rparr>,
      now_reference = instant_a,
      today_value_date = \<lparr>year = 2024, month = 3, day = 15\<rparr>,
      xml_reads = xml_reads_a\<rparr>"

text \<open>
  A printer for the scenarios, in the place of the library printer: one line
  \<open>tag=text\<close> for each element of the tree that carries text, in document order.
\<close>

definition text_lines :: "xml \<Rightarrow> error + string" where
  "text_lines doc =
     Inr (join_nl (concat (map (\<lambda>el. case text_of el of
                                        None \<Rightarrow> []
                                      | Some s \<Rightarrow> [tag_of el @ ''='' @ s])
                               (elements doc))))"


section \<open>Facts about the printing of numbers\<close>

lemma digit_char_0: "digit_char 0 = CHR ''0''"
  by code_simp

lemma digit_char_is_digit: "d < 10 \<Longrightarrow> is_digit (digit_char d)"
  by (simp add: is_digit_def digit_char_def)

lemma str_nat_not_Nil: "str_nat n \<noteq> []"
  by (subst str_nat.simps) simp

lemma str_nat_small: "n < 10 \<Longrightarrow> str_nat n = [digit_char n]"
  by (subst str_nat.simps) simp

lemma str_nat_step: "10 \<le> n \<Longrightarrow> str_nat n = str_nat (n div 10) @ [digit_char (n mod 10)]"
  by (subst str_nat.simps) simp

lemma str_nat_digits: "list_all is_digit (str_nat n)"
proof (induction n rule: str_nat.induct)
  case (1 n)
  show ?case
  proof (cases "n < 10")
    case True
    then show ?thesis by (simp add: str_nat_small digit_char_is_digit)
  next
    case False
    with 1 show ?thesis by (simp add: str_nat_step digit_char_is_digit)
  qed
qed

lemma length_str_nat_le: "0 < k \<Longrightarrow> (length (str_nat n) \<le> k) = (n < 10 ^ k)"
proof (induction n arbitrary: k rule: str_nat.induct)
  case (1 n)
  show ?case
  proof (cases "n < 10")
    case True
    have "(10::nat) ^ 1 \<le> 10 ^ k" using 1(2) by (intro power_increasing) auto
    with True 1(2) show ?thesis by (simp add: str_nat_small)
  next
    case False
    show ?thesis
    proof (cases "k = 1")
      case True
      have "length (str_nat (n div 10)) \<noteq> 0" using str_nat_not_Nil[of "n div 10"] by simp
      with True False show ?thesis by (simp add: str_nat_step)
    next
      case k: False
      then obtain j where j: "k = Suc j" "0 < j" using 1(2) by (cases k) auto
      have "(length (str_nat (n div 10)) \<le> j) = (n div 10 < 10 ^ j)"
        using 1(1)[OF False j(2)] .
      moreover have "(n div 10 < 10 ^ j) = (n < 10 ^ k)"
        unfolding j(1) power_Suc by (rule div_less_iff_less_mult[of 10 n "10 ^ j", unfolded mult.commute[of _ 10]]) simp
      ultimately show ?thesis using False j by (simp add: str_nat_step)
    qed
  qed
qed

lemma format_f_long:
  assumes "str_nat n = hi @ [a, b]" and "hi \<noteq> []"
  shows "format_f (Finite s n (- 2)) = (if s then ''-'' else '''') @ hi @ ''.'' @ [a, b]"
proof -
  have d: "- 2 + int (length (hi @ [a, b])) = int (length hi)" by simp
  show ?thesis
    unfolding format_f_def decimal.case Let_def assms(1) d
    using assms(2) by simp
qed

lemma format_f_two:
  assumes "str_nat n = [a, b]"
  shows "format_f (Finite s n (- 2)) = (if s then ''-'' else '''') @ ''0'' @ ''.'' @ [a, b]"
  unfolding format_f_def decimal.case Let_def assms by simp

lemma format_f_one:
  assumes "str_nat n = [a]"
  shows "format_f (Finite s n (- 2)) = (if s then ''-'' else '''') @ ''0'' @ ''.'' @ [CHR ''0'', a]"
  unfolding format_f_def decimal.case Let_def assms by simp

lemma format_f_cents:
  "format_f (Finite s n (- 2)) =
     (if s then ''-'' else '''') @ str_nat (n div 100) @ ''.''
       @ [digit_char (n div 10 mod 10), digit_char (n mod 10)]"
proof -
  consider "n < 10" | "10 \<le> n" "n < 100" | "100 \<le> n" by linarith
  then show ?thesis
  proof cases
    case 1
    then have z: "n div 100 = 0" "n div 10 mod 10 = 0" "n mod 10 = n" by auto
    have "str_nat (0::nat) = ''0''" using str_nat_small[of 0] digit_char_0 by simp
    then show ?thesis
      unfolding z format_f_one[OF str_nat_small[OF 1]] digit_char_0 by simp
  next
    case 2
    then have z: "n div 100 = 0" "n div 10 mod 10 = n div 10" "n div 10 < 10" by auto
    have s0: "str_nat (0::nat) = ''0''" using str_nat_small[of 0] digit_char_0 by simp
    have "str_nat n = [digit_char (n div 10), digit_char (n mod 10)]"
      using str_nat_step[OF 2(1)] str_nat_small[OF z(3)] by simp
    then show ?thesis
      unfolding z(1,2) s0 by (rule format_f_two)
  next
    case 3
    then have a: "10 \<le> n" and b: "10 \<le> n div 10" by auto
    have c: "n div 10 div 10 = n div 100" by (simp add: div_mult2_eq)
    have "str_nat n = str_nat (n div 100) @ [digit_char (n div 10 mod 10), digit_char (n mod 10)]"
      using str_nat_step[OF a] str_nat_step[OF b] c by simp
    then show ?thesis
      by (rule format_f_long) (rule str_nat_not_Nil)
  qed
qed


section \<open>Facts about rounding\<close>

lemma half_up_nat:
  fixes c m :: nat
  assumes "0 < m"
  shows "c div (10 * m) + (if 5 \<le> (c div m) mod 10 then 1 else 0) = (2 * c + 10 * m) div (20 * m)"
proof -
  define r where "r = c mod m"
  define a where "a = c div m div 10"
  define d where "d = c div m mod 10"
  have r: "r < m" using assms by (simp add: r_def)
  have d: "d < 10" by (simp add: d_def)
  have q: "c div m = 10 * a + d" by (simp add: a_def d_def)
  have "c = (c div m) * m + c mod m" by simp
  then have c: "c = (10 * a + d) * m + r" unfolding q r_def .
  have l: "c div (10 * m) = a" by (simp add: a_def div_mult2_eq mult.commute)
  have e: "2 * c + 10 * m = ((2 * d + 10) * m + 2 * r) + a * (20 * m)"
    unfolding c by (simp add: algebra_simps)
  have f: "(2 * c + 10 * m) div (20 * m) = ((2 * d + 10) * m + 2 * r) div (20 * m) + a"
    unfolding e using assms by (subst div_mult_self1) auto
  show ?thesis
  proof (cases "5 \<le> d")
    case True
    define x where "x = d * m"
    have "5 * m \<le> x" using True by (simp add: x_def)
    moreover have "x \<le> 9 * m" using d by (simp add: x_def)
    moreover have "(2 * d + 10) * m = 2 * x + 10 * m" by (simp add: x_def algebra_simps)
    ultimately have "20 * m \<le> (2 * d + 10) * m + 2 * r" "(2 * d + 10) * m + 2 * r < 2 * (20 * m)"
      using r by linarith+
    then have "((2 * d + 10) * m + 2 * r) div (20 * m) = 1"
      by (intro div_nat_eqI) simp_all
    with True show ?thesis unfolding f l d_def[symmetric] by simp
  next
    case False
    define x where "x = d * m"
    have "x \<le> 4 * m" using False by (simp add: x_def)
    moreover have "(2 * d + 10) * m = 2 * x + 10 * m" by (simp add: x_def algebra_simps)
    ultimately have "(2 * d + 10) * m + 2 * r < 20 * m" using r by linarith
    then have "((2 * d + 10) * m + 2 * r) div (20 * m) = 0" by simp
    with False show ?thesis unfolding f l d_def[symmetric] by simp
  qed
qed

lemma floor_int_plus_half: "\<lfloor>(of_int z :: real) + 1 / 2\<rfloor> = z"
  by (rule floor_unique) simp_all

lemma rescale_cents_floor:
  "int (rescale_cents c e) = \<lfloor>real c * 10 powi (e + 2) + 1 / 2\<rfloor>"
proof (cases "- 2 \<le> e")
  case True
  then have "(10::real) powi (e + 2) = 10 ^ nat (e + 2)"
    by (simp add: power_int_def)
  then have "real c * 10 powi (e + 2) = of_int (int (c * 10 ^ nat (e + 2)))"
    by simp
  then have "\<lfloor>real c * 10 powi (e + 2) + 1 / 2\<rfloor> = int (c * 10 ^ nat (e + 2))"
    by (simp only: floor_int_plus_half)
  with True show ?thesis by (simp only: rescale_cents_def if_True)
next
  case False
  define k where "k = nat (- 2 - e)"
  have k: "0 < k" "e + 2 = - int k" using False by (simp_all add: k_def)
  define m :: nat where "m = 10 ^ (k - 1)"
  have m: "0 < m" by (simp add: m_def)
  have mk: "(10::nat) ^ k = 10 * m" using k(1) by (cases k) (simp_all add: m_def)
  have "(10::real) powi (e + 2) = 1 / real (10 * m)"
    unfolding k(2) mk[symmetric] by (simp add: power_int_minus inverse_eq_divide)
  then have "real c * 10 powi (e + 2) + 1 / 2 = real c / real (10 * m) + 1 / 2" by simp
  also have "\<dots> = real (2 * c + 10 * m) / real (20 * m)"
    using m by (simp add: divide_simps)
  finally have "\<lfloor>real c * 10 powi (e + 2) + 1 / 2\<rfloor> = int ((2 * c + 10 * m) div (20 * m))"
    by (simp only: floor_divide_of_nat_eq)
  also have "\<dots> = int (c div (10 * m) + (if 5 \<le> (c div m) mod 10 then 1 else 0))"
    by (simp only: half_up_nat[OF m, of c])
  also have "c div (10 * m) + (if 5 \<le> (c div m) mod 10 then 1 else 0) = rescale_cents c e"
    using False unfolding rescale_cents_def Let_def k_def[symmetric] mk m_def[symmetric] by simp
  finally show ?thesis by simp
qed

lemma str_nat_lower_bound: "0 < c \<Longrightarrow> 10 ^ (length (str_nat c) - 1) \<le> c"
proof (cases "length (str_nat c) - 1 = 0")
  case True
  assume "0 < c" then show ?thesis using True by simp
next
  case False
  then have pos: "0 < length (str_nat c) - 1" by simp
  then have "\<not> length (str_nat c) \<le> length (str_nat c) - 1" by linarith
  then have "\<not> c < 10 ^ (length (str_nat c) - 1)"
    unfolding length_str_nat_le[OF pos, of c] .
  then show ?thesis by simp
qed

lemma rescale_cents_zero: "rescale_cents 0 e = 0"
  by (simp add: rescale_cents_def Let_def)

lemma rescale_cents_large:
  assumes "0 < c" and "28 < e + int (length (str_nat c)) + 2"
  shows "10 ^ 28 \<le> rescale_cents c e"
proof -
  define L where "L = length (str_nat c)"
  have lb: "10 ^ (L - 1) \<le> c" unfolding L_def by (rule str_nat_lower_bound[OF assms(1)])
  have L: "0 < L" unfolding L_def using str_nat_not_Nil[of c] by simp
  have a: "27 \<le> e + int L" using assms(2) by (simp add: L_def)
  show ?thesis
  proof (cases "- 2 \<le> e")
    case True
    have "28 \<le> (L - 1) + nat (e + 2)" using a L True by linarith
    then have "(10::nat) ^ 28 \<le> 10 ^ ((L - 1) + nat (e + 2))"
      by (intro power_increasing) simp_all
    also have "\<dots> = 10 ^ (L - 1) * 10 ^ nat (e + 2)" by (simp add: power_add)
    also have "\<dots> \<le> c * 10 ^ nat (e + 2)" using lb by (rule mult_le_mono1)
    finally show ?thesis using True by (simp only: rescale_cents_def if_True)
  next
    case False
    define k where "k = nat (- 2 - e)"
    have k: "k + 28 \<le> L - 1" using a L False by (simp add: k_def)
    have "(10::nat) ^ 28 \<le> 10 ^ (L - 1 - k)" using k by (intro power_increasing) simp_all
    also have "\<dots> = 10 ^ (L - 1) div 10 ^ k"
    proof (rule power_diff)
      show "(10::nat) \<noteq> 0" by simp
      show "k \<le> L - 1" using k by linarith
    qed
    also have "\<dots> \<le> c div 10 ^ k" using lb by (rule div_le_mono)
    also have "\<dots> \<le> rescale_cents c e"
      using False by (simp add: rescale_cents_def Let_def k_def)
    finally show ?thesis .
  qed
qed

lemma quantize_cents_Finite:
  "quantize_cents (Finite s c e) =
     (if rescale_cents c e < 10 ^ 28 then Inr (Finite s (rescale_cents c e) (- 2))
      else Inl InvalidOperation)"
proof (cases "c = 0")
  case True
  then show ?thesis by (simp add: quantize_cents_def rescale_cents_zero)
next
  case False
  then have c: "0 < c" by simp
  show ?thesis
  proof (cases "28 < e + int (length (str_nat c)) + 2")
    case True
    then have "\<not> rescale_cents c e < 10 ^ 28"
      using rescale_cents_large[OF c True] by simp
    with True False show ?thesis
      by (simp add: quantize_cents_def prec_def Emax_def)
  next
    case small: False
    have "(28 < length (str_nat (rescale_cents c e))) = (\<not> rescale_cents c e < 10 ^ 28)"
      using length_str_nat_le[of 28 "rescale_cents c e"] by auto
    with small False show ?thesis
      by (simp add: quantize_cents_def prec_def Emax_def)
  qed
qed

lemma digit_char_numerals:
  "digit_char 1 = CHR ''1''" "digit_char 2 = CHR ''2''" "digit_char 3 = CHR ''3''"
  "digit_char 4 = CHR ''4''" "digit_char 5 = CHR ''5''" "digit_char 6 = CHR ''6''"
  "digit_char 7 = CHR ''7''" "digit_char 8 = CHR ''8''" "digit_char 9 = CHR ''9''"
  by code_simp+

lemma digit_char_Suc_0: "digit_char (Suc 0) = CHR ''1''"
  by code_simp

lemma str_nat_0: "str_nat 0 = ''0''"
  by (simp add: str_nat_small digit_char_0)

lemma str_nat_Suc_0: "str_nat (Suc 0) = ''1''"
  by (simp add: str_nat_small digit_char_Suc_0)

lemmas str_nat_numeral = str_nat.simps[of "numeral n" for n] str_nat_0 str_nat_Suc_0

lemma format_amount_Finite:
  "format_amount (Finite s c e) ccy =
     (if rescale_cents c e < 10 ^ 28
      then Inr ((if s then ''-'' else '''') @ str_nat (rescale_cents c e div 100) @ ''.''
                 @ [digit_char (rescale_cents c e div 10 mod 10),
                    digit_char (rescale_cents c e mod 10)])
      else Inl InvalidOperation)"
  by (simp add: format_amount_def quantize_cents_Finite format_f_cents)

lemma format_decimal_eq: "format_decimal a = format_amount a ccy"
  by (simp add: format_decimal_def format_amount_def)

lemmas parse_eval = Decimal_of_str_def parse_number_def parse_special_def parse_exponent_def
  strip_def is_space_def is_digit_def int_of_digits_def digit_val_def same_ci_def lower_code_def Let_def

lemma Decimal_of_str_1234_5: "Decimal_of_str ''1234.5'' = Inr (Finite False 12345 (- 1))"
  by (simp add: parse_eval)

lemma Decimal_of_str_1234_565: "Decimal_of_str ''1234.565'' = Inr (Finite False 1234565 (- 3))"
  by (simp add: parse_eval)

lemma Decimal_of_str_1234_005: "Decimal_of_str ''1234.005'' = Inr (Finite False 1234005 (- 3))"
  by (simp add: parse_eval)

lemma Decimal_of_str_1500_5: "Decimal_of_str ''1500.5'' = Inr (Finite False 15005 (- 1))"
  by (simp add: parse_eval)

lemma Decimal_of_str_abc: "Decimal_of_str ''abc'' = Inl InvalidOperation"
  by (simp add: parse_eval)

lemma Decimal_of_str_NaN: "Decimal_of_str ''NaN'' = Inr (NaN False False 0)"
  by (simp add: parse_eval)

lemma Decimal_of_str_1E26: "Decimal_of_str ''1E26'' = Inr (Finite False 1 26)"
  by (simp add: parse_eval)


section \<open>Facts about the encoders\<close>

lemma zpad_eval:
  "zpad 2 24 = ''24''" "zpad 2 3 = ''03''" "zpad 2 15 = ''15''"
  by (simp_all add: zpad_def str_nat_numeral digit_char_numerals digit_char_0 digit_char_Suc_0)



lemma fromisoformat_2024_03_15:
  "fromisoformat ''2024-03-15'' = Some \<lparr>year = 2024, month = 3, day = 15\<rparr>"
  by (simp add: fromisoformat_def is_digit_def int_of_digits_def digit_val_def days_in_month_def is_leap_def Let_def)

lemma strftime_2024_03_15: "strftime_yymmdd \<lparr>year = 2024, month = 3, day = 15\<rparr> = ''240315''"
  by (simp add: strftime_yymmdd_def zpad_eval)

lemma isoformat_2024_03_15: "isoformat \<lparr>year = 2024, month = 3, day = 15\<rparr> = ''2024-03-15''"
  by (simp add: isoformat_def zpad_def str_nat_numeral digit_char_numerals digit_char_0 digit_char_Suc_0)

lemma format_amount_1500_5: "format_amount (Finite False 15005 (- 1)) ccy = Inr ''1500.50''"
  by (simp add: format_amount_Finite rescale_cents_def str_nat_numeral digit_char_numerals digit_char_0 digit_char_Suc_0)

lemma mt103_scenario:
  "mt103_lines reads_a scenario_payment =
     Inr [''{1:F01SWIFTSIMULATORXXXX0000000000}'',
          ''{2:O1031200SWIFTSIMULATORXXXX0000000000}'',
          ''{4:'',
          '':20:REF001'',
          '':23B:CRED'',
          '':32A:240315USD1500.50'',
          '':50K:ANDRO AG /CH970020620625170160K'',
          '':59:ACME CORP /DE89370400440532013000'',
          '':71A:SHA'',
          ''-}'']"
  by (simp add: mt103_lines_def scenario_payment_def reads_a_def Decimal_def Decimal_of_str_1500_5
        format_amount_1500_5 get_or_def isoformat_2024_03_15 fromisoformat_2024_03_15 strftime_2024_03_15)

lemma truthy_get_or: "(get_or fld [] \<noteq> []) = truthy fld"
  by (cases fld) (simp_all add: get_or_def truthy_def)

lemma newline_not_in_replace_nl: "newline \<notin> set (replace_nl s)"
  by (auto simp: replace_nl_def newline_def)

lemma mt103_lines_success:
  assumes "amount p = Some a" and "Decimal a = Inr amt"
    and "format_amount amt (get_or (currency p) ''USD'') = Inr fa"
  shows "mt103_lines rd p =
     Inr ([''{1:F01SWIFTSIMULATORXXXX0000000000}'',
           ''{2:O1031200SWIFTSIMULATORXXXX0000000000}'',
           ''{4:'',
           '':20:'' @ get_or (reference p) (take 12 (upper (uuid_default rd))),
           '':23B:CRED'',
           '':32A:''
             @ (case fromisoformat (get_or (value_date p) (isoformat (today_default rd))) of
                  Some d \<Rightarrow> strftime_yymmdd d
                | None \<Rightarrow> strftime_yymmdd (today_fallback rd))
             @ get_or (currency p) ''USD'' @ fa,
           '':50K:'' @ get_or (ordering_name p) '''' @ '' /'' @ get_or (ordering_account p) '''',
           '':59:'' @ get_or (beneficiary_name p) '''' @ '' /''
             @ get_or (beneficiary_account p) '''']
          @ (if truthy (remittance_info p)
             then ['':70:'' @ replace_nl (get_or (remittance_info p) '''')] else [])
          @ ['':71A:SHA'', ''-}''])"
  unfolding mt103_lines_def Let_def assms option.case sum.case truthy_get_or by simp

lemma pain001_tree_success:
  assumes "amount p = Some a" and "Decimal a = Inr amt"
    and "format_amount amt (get_or (currency p) ''USD'') = Inr fa"
  shows "\<exists>doc. pain001_tree rd p = Inr doc
           \<and> texts_of ''CtrlSum'' doc = [Some fa, Some fa]
           \<and> texts_of ''InstdAmt'' doc = [Some fa]
           \<and> filter (\<lambda>el. tag_of el = ''RmtInf'') (elements doc) =
               (if truthy (remittance_info p)
                then [Element ''RmtInf'' [] None [leaf ''Ustrd'' (get_or (remittance_info p) '''')]]
                else [])"
  unfolding pain001_tree_def Let_def assms option.case sum.case
  by (simp add: texts_of_def leaf_def)

lemma pain001_xml_tree_success:
  assumes "amount p = Some (AmountDecimal amt)" and "format_decimal amt = Inr fa"
  shows "\<exists>doc. pain001_xml_tree rd p = Inr doc
           \<and> texts_of ''CtrlSum'' doc = [Some fa, Some fa]
           \<and> texts_of ''InstdAmt'' doc = [Some fa]
           \<and> filter (\<lambda>el. tag_of el = ''RmtInf'') (elements doc) =
               (if truthy (remittance_info p)
                then [Element ''RmtInf'' [] None [leaf ''Ustrd'' (get_or (remittance_info p) '''')]]
                else [])"
  unfolding pain001_xml_tree_def format_decimal_field_def assms option.case sum.case amount_value.case
  by (simp add: texts_of_def leaf_def)


lemma format_amount_NaN: "format_amount (NaN False False 0) ccy = Inr ''NaN''"
  by (simp add: format_amount_def quantize_cents_def format_f_def)

lemma strip_1500_5: "strip ''1500.5'' = ''1500.5''"
  by (simp add: strip_def is_space_def)

lemma format_decimal_1500_5: "format_decimal (Finite False 15005 (- 1)) = Inr ''1500.50''"
  using format_amount_1500_5[of "[]"] by (simp add: format_decimal_def format_amount_def)

lemma rejected_amount_fails:
  assumes "amount p = Some a" and "Decimal a = Inl err"
  shows "generate_mt103 rd p = Inl err" and "generate_pain001 toprettyxml xrd p = Inl err"
  using assms
  by (simp_all add: generate_mt103_def mt103_lines_def generate_pain001_def pain001_tree_def)

lemma unformattable_amount_fails:
  assumes "amount p = Some a" and "Decimal a = Inr amt"
    and "format_amount amt (get_or (currency p) ''USD'') = Inl err"
  shows "generate_mt103 rd p = Inl err" and "generate_pain001 toprettyxml xrd p = Inl err"
  using assms
  by (simp_all add: generate_mt103_def mt103_lines_def generate_pain001_def pain001_tree_def Let_def)

lemma format_amount_special:
  "format_amount (Infinity s) ccy = Inl InvalidOperation"
  "format_amount (NaN s True payload) ccy = Inl InvalidOperation"
  by (simp_all add: format_amount_def quantize_cents_def)

lemma map_of_dict_set: "map_of (dict_set d k v) = (map_of d)(k \<mapsto> v)"
  by (induction d k v rule: dict_set.induct) (auto simp: fun_eq_iff)

lemma keys_dict_set:
  "map fst (dict_set d k v) = (if k \<in> fst ` set d then map fst d else map fst d @ [k])"
  by (induction d k v rule: dict_set.induct) auto

lemma map_of_dict_update:
  "distinct (map fst ov) \<Longrightarrow> map_of (dict_update d ov) = map_of d ++ map_of ov"
proof (induction d ov rule: dict_update.induct)
  case (1 d)
  then show ?case by simp
next
  case (2 d k v other)
  then have k: "map_of other k = None"
    by (simp add: map_of_eq_None_iff)
  have "map_of (dict_update d ((k, v) # other)) = map_of (dict_set d k v) ++ map_of other"
    using 2 by simp
  also have "\<dots> = (map_of d)(k \<mapsto> v) ++ map_of other"
    by (simp only: map_of_dict_set)
  also have "\<dots> = map_of d ++ map_of ((k, v) # other)"
    using k by (auto simp: fun_eq_iff map_add_def split: option.splits)
  finally show ?case .
qed

lemma keys_dict_update: "prefix (map fst d) (map fst (dict_update d ov))"
proof (induction d ov rule: dict_update.induct)
  case (1 d)
  then show ?case by simp
next
  case (2 d k v other)
  have "prefix (map fst d) (map fst (dict_set d k v))" by (simp add: keys_dict_set)
  with 2 show ?case by (auto intro: prefix_order.trans)
qed

lemma compose_MT103:
  assumes "form_msg_type f = ''MT103''"
    and "Decimal_of_str (strip (form_amount_text f)) = Inr amt"
    and "format_decimal amt = Inr fa"
  shows "compose toprettyxml rd f =
     Inr (join_nl
       ([''{1:F01'' @ form_sender_bic f @ ''XXXX0000000000}'',
         ''{2:O1031200'' @ form_sender_bic f @ ''XXXX0000000000}'',
         ''{4:'',
         '':20:'' @ (if form_reference f \<noteq> [] then form_reference f
                     else ''103'' @ strftime_compact (now_reference rd))]
        @ map (\<lambda>(k, v). k @ v)
            (dict_update
               [('':32A:'', strftime_yymmdd (today_32a rd) @ form_currency f @ fa),
                ('':50K:'', form_ordering_name f @ '' /'' @ form_ordering_account f),
                ('':59:'', form_beneficiary_name f @ '' /'' @ form_beneficiary_account f),
                ('':70:'', form_remittance f)]
               (form_mt_fields f))
        @ ['':86:Sender Details'',
           '' /BANK/'' @ form_sender_bank f,
           '' /ADDR/'' @ form_sender_addr f,
           '' /ACCTNAME/'' @ form_sender_acct_name f,
           '' /ACCTIBAN/'' @ form_sender_iban f,
           ''-}'']))"
  unfolding compose_def assms sum.case build_mt_message_def mt_message_lines_def
    form_sender_info_def Let_def
  by (simp add: truthy_def get_or_def str_of_get_def del: join_nl.simps)

lemma compose_free_format:
  assumes "form_msg_type f = ''MT199'' \<or> form_msg_type f = ''MT799''
           \<or> form_msg_type f = ''MT700'' \<or> form_msg_type f = ''MT760''"
    and "Decimal_of_str (strip (form_amount_text f)) = Inr amt"
  shows "compose toprettyxml rd f =
     Inr (join_nl
       ([''{1:F01'' @ form_sender_bic f @ ''XXXX0000000000}'',
         ''{2:O'' @ drop 2 (form_msg_type f) @ ''1200'' @ form_sender_bic f @ ''XXXX0000000000}'',
         ''{4:'',
         '':20:'' @ (if form_reference f \<noteq> [] then form_reference f
                     else drop 2 (form_msg_type f) @ strftime_compact (now_reference rd))]
        @ map (\<lambda>(k, v). k @ v)
            (if form_mt_fields f \<noteq> [] then form_mt_fields f
             else [(if form_msg_type f = ''MT700'' then '':77B:''
                    else if form_msg_type f = ''MT760'' then '':77U:'' else '':79:'',
                    form_remittance f)])
        @ ['':86:Sender Details'',
           '' /BANK/'' @ form_sender_bank f,
           '' /ADDR/'' @ form_sender_addr f,
           '' /ACCTNAME/'' @ form_sender_acct_name f,
           '' /ACCTIBAN/'' @ form_sender_iban f,
           ''-}'']))"
  using assms(1) unfolding compose_def assms(2) sum.case build_mt_message_def mt_message_lines_def
    form_sender_info_def Let_def fields_or_def
  by (auto simp: truthy_def get_or_def str_of_get_def simp del: join_nl.simps)


lemma map_of_MT_TEMPLATES_None:
  "(map_of MT_TEMPLATES t = None) =
     (t \<noteq> ''MT103'' \<and> t \<noteq> ''MT199'' \<and> t \<noteq> ''MT700'' \<and> t \<noteq> ''MT760'' \<and> t \<noteq> ''MT799'')"
  by (auto simp: MT_TEMPLATES_def)

lemma scenario_form_amount:
  "Decimal_of_str (strip (form_amount_text (scenario_form\<lparr>form_msg_type := t\<rparr>)))
     = Inr (Finite False 15005 (- 1))"
  "Decimal_of_str (strip (form_amount_text scenario_form)) = Inr (Finite False 15005 (- 1))"
  by (simp_all add: scenario_form_def strip_1500_5 Decimal_of_str_1500_5)

lemma tag_of_root_xml:
  "pain001_xml_tree xrd p = Inr doc \<Longrightarrow> tag_of doc = ''CstmrCdtTrfInitn''"
  by (auto simp: pain001_xml_tree_def split: sum.splits)


lemma generate_mt103_success:
  assumes "amount p = Some a" and "Decimal a = Inr amt"
    and "format_amount amt (get_or (currency p) ''USD'') = Inr fa"
  shows "generate_mt103 rd p =
      Inr (join_nl
        ([''{1:F01SWIFTSIMULATORXXXX0000000000}'',
          ''{2:O1031200SWIFTSIMULATORXXXX0000000000}'',
          ''{4:'',
          '':20:'' @ get_or (reference p) (take 12 (upper (uuid_default rd))),
          '':23B:CRED'',
          '':32A:''
            @ (case fromisoformat (get_or (value_date p) (isoformat (today_default rd))) of
                 Some d \<Rightarrow> strftime_yymmdd d
               | None \<Rightarrow> strftime_yymmdd (today_fallback rd))
            @ get_or (currency p) ''USD'' @ fa,
          '':50K:'' @ get_or (ordering_name p) '''' @ '' /'' @ get_or (ordering_account p) '''',
          '':59:'' @ get_or (beneficiary_name p) '''' @ '' /''
            @ get_or (beneficiary_account p) '''']
         @ (if truthy (remittance_info p)
            then ['':70:'' @ replace_nl (get_or (remittance_info p) '''')] else [])
         @ ['':71A:SHA'', ''-}'']))"
proof -
  have "generate_mt103 rd p = Inr (join_nl (projr (mt103_lines rd p)))"
    by (simp add: generate_mt103_def mt103_lines_success[OF assms] del: join_nl.simps)
  then show ?thesis
    by (simp only: mt103_lines_success[OF assms] sum.sel)
qed

lemma generate_mt103_scenario:
  "generate_mt103 rd scenario_payment =
          Inr (join_nl
            [''{1:F01SWIFTSIMULATORXXXX0000000000}'',
             ''{2:O1031200SWIFTSIMULATORXXXX0000000000}'',
             ''{4:'',
             '':20:REF001'',
             '':23B:CRED'',
             '':32A:'' @ (case fromisoformat (isoformat (today_default rd)) of
                 Some d \<Rightarrow> strftime_yymmdd d
               | None \<Rightarrow> strftime_yymmdd (today_fallback rd)) @ ''USD1500.50'',
             '':50K:ANDRO AG /CH970020620625170160K'',
             '':59:ACME CORP /DE89370400440532013000'',
             '':71A:SHA'',
             ''-}''])"
proof -
  have 1: "amount scenario_payment = Some (AmountStr ''1500.5'')"
    by (simp add: scenario_payment_def)
  have 2: "Decimal (AmountStr ''1500.5'') = Inr (Finite False 15005 (- 1))"
    by (simp add: Decimal_def Decimal_of_str_1500_5)
  have 3: "format_amount (Finite False 15005 (- 1)) (get_or (currency scenario_payment) ''USD'')
             = Inr ''1500.50''"
    by (rule format_amount_1500_5)
  have g: "get_or (reference scenario_payment) x = ''REF001''"
    "get_or (value_date scenario_payment) y = y"
    "get_or (currency scenario_payment) z = ''USD''"
    "get_or (ordering_name scenario_payment) u = ''ANDRO AG''"
    "get_or (ordering_account scenario_payment) u = ''CH970020620625170160K''"
    "get_or (beneficiary_name scenario_payment) u = ''ACME CORP''"
    "get_or (beneficiary_account scenario_payment) u = ''DE89370400440532013000''"
    "truthy (remittance_info scenario_payment) = False"
    for x y z u
    by (simp_all add: scenario_payment_def get_or_def truthy_def)
  show ?thesis
    unfolding generate_mt103_success[OF 1 2 3] g by (simp del: join_nl.simps)
qed

lemma compose_MT103_no_overrides:
  assumes "form_msg_type f = ''MT103''" and "form_mt_fields f = []"
    and "Decimal_of_str (strip (form_amount_text f)) = Inr amt"
    and "format_decimal amt = Inr fa"
  shows "compose toprettyxml crd f =
        Inr (join_nl
          [''{1:F01'' @ form_sender_bic f @ ''XXXX0000000000}'',
           ''{2:O1031200'' @ form_sender_bic f @ ''XXXX0000000000}'',
           ''{4:'',
           '':20:'' @ (if form_reference f \<noteq> [] then form_reference f
                       else ''103'' @ strftime_compact (now_reference crd)),
           '':32A:'' @ strftime_yymmdd (today_32a crd) @ form_currency f @ fa,
           '':50K:'' @ form_ordering_name f @ '' /'' @ form_ordering_account f,
           '':59:'' @ form_beneficiary_name f @ '' /'' @ form_beneficiary_account f,
           '':70:'' @ form_remittance f,
           '':86:Sender Details'',
           '' /BANK/'' @ form_sender_bank f,
           '' /ADDR/'' @ form_sender_addr f,
           '' /ACCTNAME/'' @ form_sender_acct_name f,
           '' /ACCTIBAN/'' @ form_sender_iban f,
           ''-}''])"
proof -
  have d: "dict_update
               [('':32A:'', strftime_yymmdd (today_32a crd) @ form_currency f @ fa),
                ('':50K:'', form_ordering_name f @ '' /'' @ form_ordering_account f),
                ('':59:'', form_beneficiary_name f @ '' /'' @ form_beneficiary_account f),
                ('':70:'', form_remittance f)]
               (form_mt_fields f) =
               [('':32A:'', strftime_yymmdd (today_32a crd) @ form_currency f @ fa),
                ('':50K:'', form_ordering_name f @ '' /'' @ form_ordering_account f),
                ('':59:'', form_beneficiary_name f @ '' /'' @ form_beneficiary_account f),
                ('':70:'', form_remittance f)]"
    unfolding assms(2) by (rule dict_update.simps(1))
  show ?thesis
    unfolding compose_MT103[OF assms(1,3,4)] d by (simp del: join_nl.simps)
qed

lemma scenario_form_fields:
  "form_msg_type scenario_form = ''MT103''" "form_mt_fields scenario_form = []"
  "form_sender_bic scenario_form = ''UBSWCHZH80A''"
  "form_reference scenario_form = ''REF001''"
  "form_currency scenario_form = ''USD''"
  "form_ordering_name scenario_form = ''ANDRO AG''"
  "form_ordering_account scenario_form = ''CH970020620625170160K''"
  "form_beneficiary_name scenario_form = ''ACME CORP''"
  "form_beneficiary_account scenario_form = ''DE89370400440532013000''"
  "form_remittance scenario_form = []"
  "form_sender_bank scenario_form = ''UBS SWITZERLAND AG''"
  "form_sender_addr scenario_form = ''PARADEPLATZ 6, 8098, ZURICH, SWITZERLAND''"
  "form_sender_acct_name scenario_form = ''ANDRO AG / FOR FURTHER FORSAN FOR FRUITS AND VEGETABLES EAST''"
  "form_sender_iban scenario_form = ''CH970020620625170160K''"
  by (simp_all add: scenario_form_def)

lemma compose_scenario:
  "compose toprettyxml compose_reads_a scenario_form =
     Inr (join_nl
       [''{1:F01UBSWCHZH80AXXXX0000000000}'',
        ''{2:O1031200UBSWCHZH80AXXXX0000000000}'',
        ''{4:'',
        '':20:REF001'',
        '':32A:240315USD1500.50'',
        '':50K:ANDRO AG /CH970020620625170160K'',
        '':59:ACME CORP /DE89370400440532013000'',
        '':70:'',
        '':86:Sender Details'',
        '' /BANK/UBS SWITZERLAND AG'',
        '' /ADDR/PARADEPLATZ 6, 8098, ZURICH, SWITZERLAND'',
        '' /ACCTNAME/ANDRO AG / FOR FURTHER FORSAN FOR FRUITS AND VEGETABLES EAST'',
        '' /ACCTIBAN/CH970020620625170160K'',
        ''-}''])"
proof -
  have t: "strftime_yymmdd (today_32a compose_reads_a) = ''240315''"
    by (simp add: compose_reads_a_def strftime_2024_03_15)
  show ?thesis
    unfolding compose_MT103_no_overrides[OF scenario_form_fields(1,2) scenario_form_amount(2)
        format_decimal_1500_5] scenario_form_fields t
    by (simp del: join_nl.simps)
qed

lemma split_nl_not_Nil: "split_nl s \<noteq> []"
  by (induction s) (auto split: list.splits)

lemma split_nl_single: "newline \<notin> set l \<Longrightarrow> split_nl l = [l]"
  by (induction l) auto

lemma split_nl_line: "newline \<notin> set l \<Longrightarrow> split_nl (l @ newline # s) = l # split_nl s"
  by (induction l) auto

lemma split_nl_join_nl:
  "ls \<noteq> [] \<Longrightarrow> list_all (\<lambda>l. newline \<notin> set l) ls \<Longrightarrow> split_nl (join_nl ls) = ls"
proof (induction ls rule: join_nl.induct)
  case 1
  then show ?case by simp
next
  case (2 l)
  then show ?case by (simp add: split_nl_single)
next
  case (3 l m ls)
  then show ?case by (simp add: split_nl_line)
qed


section \<open>The amount formatter\<close>

text \<open>
  Claim C1, as the code has it. For a finite decimal \<open>\<plusminus> c * 10 ^ e\<close> let \<open>n\<close> be the amount in
  hundredths rounded half-up, \<open>n = floor (c * 10 ^ (e + 2) + 1/2)\<close>. When \<open>n\<close> has at most 28
  digits, \<open>format_amount\<close> (and \<open>format_decimal\<close>, which computes the same) returns the sign,
  the decimal digits of \<open>n div 100\<close>, one point and exactly the two digits of \<open>n mod 100\<close>:
  digits only, so no grouping separator and no exponent. When \<open>n\<close> needs more than 28 digits,
  the precision of the decimal context, \<open>quantize\<close> raises \<open>InvalidOperation\<close> and no string is
  returned. The three amounts of the claim come out as \<open>1234.50\<close>, \<open>1234.57\<close> and \<open>1234.01\<close>.
\<close>

theorem format_amount_half_up_two_digits:
  "format_amount (Finite s c e) ccy =
     (let n = nat \<lfloor>real c * 10 powi (e + 2) + 1 / 2\<rfloor> in
      if n < 10 ^ 28
      then Inr ((if s then ''-'' else '''') @ str_nat (n div 100) @ ''.''
                 @ [digit_char (n div 10 mod 10), digit_char (n mod 10)])
      else Inl InvalidOperation)
   \<and> format_decimal (Finite s c e) = format_amount (Finite s c e) ccy
   \<and> list_all is_digit (str_nat m) \<and> str_nat m \<noteq> []
   \<and> is_digit (digit_char (k mod 10))
   \<and> format_amount (Finite False 12345 (- 1)) ccy = Inr ''1234.50''
   \<and> format_amount (Finite False 1234565 (- 3)) ccy = Inr ''1234.57''
   \<and> format_amount (Finite False 1234005 (- 3)) ccy = Inr ''1234.01''"
proof -
  have n: "nat \<lfloor>real c * 10 powi (e + 2) + 1 / 2\<rfloor> = rescale_cents c e"
    by (simp add: rescale_cents_floor[symmetric])
  have a: "format_amount (Finite s c e) ccy =
     (let n = nat \<lfloor>real c * 10 powi (e + 2) + 1 / 2\<rfloor> in
      if n < 10 ^ 28
      then Inr ((if s then ''-'' else '''') @ str_nat (n div 100) @ ''.''
                 @ [digit_char (n div 10 mod 10), digit_char (n mod 10)])
      else Inl InvalidOperation)"
    unfolding Let_def n by (rule format_amount_Finite)
  have b: "format_decimal (Finite s c e) = format_amount (Finite s c e) ccy"
    by (rule format_decimal_eq)
  have d: "is_digit (digit_char (k mod 10))" by (rule digit_char_is_digit) simp
  have e1: "format_amount (Finite False 12345 (- 1)) ccy = Inr ''1234.50''"
    by (simp add: format_amount_Finite rescale_cents_def str_nat_numeral digit_char_numerals digit_char_0 digit_char_Suc_0)
  have e2: "format_amount (Finite False 1234565 (- 3)) ccy = Inr ''1234.57''"
    by (simp add: format_amount_Finite rescale_cents_def str_nat_numeral digit_char_numerals digit_char_0 digit_char_Suc_0)
  have e3: "format_amount (Finite False 1234005 (- 3)) ccy = Inr ''1234.01''"
    by (simp add: format_amount_Finite rescale_cents_def str_nat_numeral digit_char_numerals digit_char_0 digit_char_Suc_0)
  show ?thesis
    using a b d e1 e2 e3 str_nat_digits[of m] str_nat_not_Nil[of m]
    by (intro conjI) assumption+
qed

text \<open>
  The claim as stated, for every exact decimal amount, fails beyond the precision: the
  amount \<open>1E26\<close> is an exact decimal, and formatting it raises \<open>InvalidOperation\<close>.
\<close>

theorem format_amount_precision_counterexample:
  "Decimal_of_str ''1E26'' = Inr (Finite False 1 26)
   \<and> format_amount (Finite False 1 26) ''USD'' = Inl InvalidOperation"
proof -
  have "Decimal_of_str ''1E26'' = Inr (Finite False 1 26)" by (rule Decimal_of_str_1E26)
  moreover have "format_amount (Finite False 1 26) ''USD'' = Inl InvalidOperation"
    by (simp add: format_amount_Finite rescale_cents_def)
  ultimately show ?thesis by simp
qed


section \<open>The pain.001 control sum\<close>

text \<open>
  Claim C2. Whenever the amount of a payment converts to a decimal and formats to the text
  \<open>fa\<close>, the encoder builds a document (and returns its printing): its \<open>CtrlSum\<close> elements,
  the one of the group header and the one of the payment information, carry one distinct
  text, \<open>fa\<close>, and its only \<open>InstdAmt\<close> element carries \<open>fa\<close> too. This holds for
  \<open>swift_messages.generate_pain001\<close> and, when the amount is stored as a \<open>Decimal\<close>, for
  \<open>swift_alliance_streamlit.generate_pain001_xml\<close>.
\<close>

theorem pain001_ctrl_sum_equals_instd_amt:
  assumes "amount p = Some a" and "Decimal a = Inr amt"
    and "format_amount amt (get_or (currency p) ''USD'') = Inr fa"
  shows "(\<exists>doc. pain001_tree rd p = Inr doc
            \<and> generate_pain001 toprettyxml rd p = toprettyxml doc
            \<and> texts_of ''CtrlSum'' doc = [Some fa, Some fa]
            \<and> set (texts_of ''CtrlSum'' doc) = {Some fa}
            \<and> texts_of ''InstdAmt'' doc = [Some fa])
       \<and> (a = AmountDecimal amt \<longrightarrow>
            (\<exists>doc. pain001_xml_tree rd p = Inr doc
               \<and> generate_pain001_xml toprettyxml rd p = toprettyxml doc
               \<and> texts_of ''CtrlSum'' doc = [Some fa, Some fa]
               \<and> set (texts_of ''CtrlSum'' doc) = {Some fa}
               \<and> texts_of ''InstdAmt'' doc = [Some fa]))"
proof (intro conjI impI)
  from pain001_tree_success[OF assms, of rd]
  obtain doc where d: "pain001_tree rd p = Inr doc"
    "texts_of ''CtrlSum'' doc = [Some fa, Some fa]" "texts_of ''InstdAmt'' doc = [Some fa]"
    by blast
  have "generate_pain001 toprettyxml rd p = toprettyxml doc"
    by (simp add: generate_pain001_def d(1))
  with d show "\<exists>doc. pain001_tree rd p = Inr doc
            \<and> generate_pain001 toprettyxml rd p = toprettyxml doc
            \<and> texts_of ''CtrlSum'' doc = [Some fa, Some fa]
            \<and> set (texts_of ''CtrlSum'' doc) = {Some fa}
            \<and> texts_of ''InstdAmt'' doc = [Some fa]"
    by auto
next
  assume a: "a = AmountDecimal amt"
  have f: "format_decimal amt = Inr fa"
    using assms(3) by (simp add: format_decimal_def format_amount_def)
  from pain001_xml_tree_success[OF assms(1)[unfolded a] f, of rd]
  obtain doc where d: "pain001_xml_tree rd p = Inr doc"
    "texts_of ''CtrlSum'' doc = [Some fa, Some fa]" "texts_of ''InstdAmt'' doc = [Some fa]"
    by blast
  have "generate_pain001_xml toprettyxml rd p = toprettyxml doc"
    by (simp add: generate_pain001_xml_def d(1))
  with d show "\<exists>doc. pain001_xml_tree rd p = Inr doc
               \<and> generate_pain001_xml toprettyxml rd p = toprettyxml doc
               \<and> texts_of ''CtrlSum'' doc = [Some fa, Some fa]
               \<and> set (texts_of ''CtrlSum'' doc) = {Some fa}
               \<and> texts_of ''InstdAmt'' doc = [Some fa]"
    by auto
qed

theorem pain001_ctrl_sum_witness:
  "(\<exists>doc. pain001_tree xml_reads_a
             (scenario_payment\<lparr>amount := Some (AmountDecimal (Finite False 15005 (- 1)))\<rparr>) = Inr doc
          \<and> texts_of ''CtrlSum'' doc = [Some ''1500.50'', Some ''1500.50'']
          \<and> texts_of ''InstdAmt'' doc = [Some ''1500.50''])
   \<and> (\<exists>doc. pain001_xml_tree xml_reads_a
             (scenario_payment\<lparr>amount := Some (AmountDecimal (Finite False 15005 (- 1)))\<rparr>) = Inr doc
          \<and> texts_of ''CtrlSum'' doc = [Some ''1500.50'', Some ''1500.50'']
          \<and> texts_of ''InstdAmt'' doc = [Some ''1500.50''])"
proof -
  let ?p = "scenario_payment\<lparr>amount := Some (AmountDecimal (Finite False 15005 (- 1)))\<rparr>"
  have 1: "amount ?p = Some (AmountDecimal (Finite False 15005 (- 1)))" by simp
  have 2: "Decimal (AmountDecimal (Finite False 15005 (- 1))) = Inr (Finite False 15005 (- 1))"
    by (simp add: Decimal_def)
  have 3: "format_amount (Finite False 15005 (- 1)) (get_or (currency ?p) ''USD'') = Inr ''1500.50''"
    by (rule format_amount_1500_5)
  from pain001_ctrl_sum_equals_instd_amt[OF 1 2 3, of xml_reads_a]
  show ?thesis by blast
qed


section \<open>The tags of an MT103\<close>

text \<open>
  Claim C3, as the code has it. \<open>swift_messages.generate_mt103\<close> emits, after the \<open>:20:\<close>
  line, \<open>:23B:CRED\<close>, the \<open>:32A:\<close> line made of the two-digit-year date, the currency and
  the formatted amount with nothing between them, \<open>:50K:\<close>, \<open>:59:\<close>, the \<open>:70:\<close> line only
  when the remittance text is not empty, and \<open>:71A:SHA\<close>; for the payment of the scenario
  the text has the line \<open>:20:REF001\<close> and a \<open>:32A:\<close> line ending in \<open>USD1500.50\<close>. The MT103
  branch of the Compose handler has other defaults: with no tags from the caller it
  emits, after \<open>:20:\<close>, the lines \<open>:32A:\<close>, \<open>:50K:\<close>, \<open>:59:\<close> and \<open>:70:\<close> with the remittance
  text as typed, then the \<open>:86:\<close> trailer.
\<close>

theorem mt103_default_tags:
  "(amount p = Some a \<and> Decimal a = Inr amt
      \<and> format_amount amt (get_or (currency p) ''USD'') = Inr fa \<longrightarrow>
    generate_mt103 rd p =
      Inr (join_nl
        ([''{1:F01SWIFTSIMULATORXXXX0000000000}'',
          ''{2:O1031200SWIFTSIMULATORXXXX0000000000}'',
          ''{4:'',
          '':20:'' @ get_or (reference p) (take 12 (upper (uuid_default rd))),
          '':23B:CRED'',
          '':32A:''
            @ (case fromisoformat (get_or (value_date p) (isoformat (today_default rd))) of
                 Some d \<Rightarrow> strftime_yymmdd d
               | None \<Rightarrow> strftime_yymmdd (today_fallback rd))
            @ get_or (currency p) ''USD'' @ fa,
          '':50K:'' @ get_or (ordering_name p) '''' @ '' /'' @ get_or (ordering_account p) '''',
          '':59:'' @ get_or (beneficiary_name p) '''' @ '' /''
            @ get_or (beneficiary_account p) '''']
         @ (if truthy (remittance_info p)
            then ['':70:'' @ replace_nl (get_or (remittance_info p) '''')] else [])
         @ ['':71A:SHA'', ''-}''])))
   \<and> (\<exists>vd. generate_mt103 rd scenario_payment =
          Inr (join_nl
            [''{1:F01SWIFTSIMULATORXXXX0000000000}'',
             ''{2:O1031200SWIFTSIMULATORXXXX0000000000}'',
             ''{4:'',
             '':20:REF001'',
             '':23B:CRED'',
             '':32A:'' @ vd @ ''USD1500.50'',
             '':50K:ANDRO AG /CH970020620625170160K'',
             '':59:ACME CORP /DE89370400440532013000'',
             '':71A:SHA'',
             ''-}'']))
   \<and> (form_msg_type f = ''MT103'' \<and> form_mt_fields f = []
        \<and> Decimal_of_str (strip (form_amount_text f)) = Inr amt'
        \<and> format_decimal amt' = Inr fa' \<longrightarrow>
      compose toprettyxml crd f =
        Inr (join_nl
          [''{1:F01'' @ form_sender_bic f @ ''XXXX0000000000}'',
           ''{2:O1031200'' @ form_sender_bic f @ ''XXXX0000000000}'',
           ''{4:'',
           '':20:'' @ (if form_reference f \<noteq> [] then form_reference f
                       else ''103'' @ strftime_compact (now_reference crd)),
           '':32A:'' @ strftime_yymmdd (today_32a crd) @ form_currency f @ fa',
           '':50K:'' @ form_ordering_name f @ '' /'' @ form_ordering_account f,
           '':59:'' @ form_beneficiary_name f @ '' /'' @ form_beneficiary_account f,
           '':70:'' @ form_remittance f,
           '':86:Sender Details'',
           '' /BANK/'' @ form_sender_bank f,
           '' /ADDR/'' @ form_sender_addr f,
           '' /ACCTNAME/'' @ form_sender_acct_name f,
           '' /ACCTIBAN/'' @ form_sender_iban f,
           ''-}'']))"
proof (intro conjI impI)
  assume "amount p = Some a \<and> Decimal a = Inr amt
      \<and> format_amount amt (get_or (currency p) ''USD'') = Inr fa"
  then have 1: "amount p = Some a" and 2: "Decimal a = Inr amt"
    and 3: "format_amount amt (get_or (currency p) ''USD'') = Inr fa" by simp_all
  from 1 2 3 show "generate_mt103 rd p =
      Inr (join_nl
        ([''{1:F01SWIFTSIMULATORXXXX0000000000}'',
          ''{2:O1031200SWIFTSIMULATORXXXX0000000000}'',
          ''{4:'',
          '':20:'' @ get_or (reference p) (take 12 (upper (uuid_default rd))),
          '':23B:CRED'',
          '':32A:''
            @ (case fromisoformat (get_or (value_date p) (isoformat (today_default rd))) of
                 Some d \<Rightarrow> strftime_yymmdd d
               | None \<Rightarrow> strftime_yymmdd (today_fallback rd))
            @ get_or (currency p) ''USD'' @ fa,
          '':50K:'' @ get_or (ordering_name p) '''' @ '' /'' @ get_or (ordering_account p) '''',
          '':59:'' @ get_or (beneficiary_name p) '''' @ '' /''
            @ get_or (beneficiary_account p) '''']
         @ (if truthy (remittance_info p)
            then ['':70:'' @ replace_nl (get_or (remittance_info p) '''')] else [])
         @ ['':71A:SHA'', ''-}'']))"
    by (rule generate_mt103_success)
next
  show "\<exists>vd. generate_mt103 rd scenario_payment =
          Inr (join_nl
            [''{1:F01SWIFTSIMULATORXXXX0000000000}'',
             ''{2:O1031200SWIFTSIMULATORXXXX0000000000}'',
             ''{4:'',
             '':20:REF001'',
             '':23B:CRED'',
             '':32A:'' @ vd @ ''USD1500.50'',
             '':50K:ANDRO AG /CH970020620625170160K'',
             '':59:ACME CORP /DE89370400440532013000'',
             '':71A:SHA'',
             ''-}''])"
    by (rule exI) (rule generate_mt103_scenario)
next
  assume "form_msg_type f = ''MT103'' \<and> form_mt_fields f = []
        \<and> Decimal_of_str (strip (form_amount_text f)) = Inr amt'
        \<and> format_decimal amt' = Inr fa'"
  then have 1: "form_msg_type f = ''MT103''" and 2: "form_mt_fields f = []"
    and 3: "Decimal_of_str (strip (form_amount_text f)) = Inr amt'"
    and 4: "format_decimal amt' = Inr fa'" by simp_all
  from 1 2 3 4 show "compose toprettyxml crd f =
        Inr (join_nl
          [''{1:F01'' @ form_sender_bic f @ ''XXXX0000000000}'',
           ''{2:O1031200'' @ form_sender_bic f @ ''XXXX0000000000}'',
           ''{4:'',
           '':20:'' @ (if form_reference f \<noteq> [] then form_reference f
                       else ''103'' @ strftime_compact (now_reference crd)),
           '':32A:'' @ strftime_yymmdd (today_32a crd) @ form_currency f @ fa',
           '':50K:'' @ form_ordering_name f @ '' /'' @ form_ordering_account f,
           '':59:'' @ form_beneficiary_name f @ '' /'' @ form_beneficiary_account f,
           '':70:'' @ form_remittance f,
           '':86:Sender Details'',
           '' /BANK/'' @ form_sender_bank f,
           '' /ADDR/'' @ form_sender_addr f,
           '' /ACCTNAME/'' @ form_sender_acct_name f,
           '' /ACCTIBAN/'' @ form_sender_iban f,
           ''-}''])"
    by (rule compose_MT103_no_overrides)
qed

theorem mt103_default_tags_witness:
  "(\<exists>out. generate_mt103 reads_a scenario_payment = Inr out
       \<and> split_nl out =
           [''{1:F01SWIFTSIMULATORXXXX0000000000}'',
            ''{2:O1031200SWIFTSIMULATORXXXX0000000000}'',
            ''{4:'',
            '':20:REF001'',
            '':23B:CRED'',
            '':32A:240315USD1500.50'',
            '':50K:ANDRO AG /CH970020620625170160K'',
            '':59:ACME CORP /DE89370400440532013000'',
            '':71A:SHA'',
            ''-}''])
   \<and> suffix ''USD1500.50'' '':32A:240315USD1500.50''
   \<and> (\<exists>body. compose (Inr \<circ> tag_of) compose_reads_a scenario_form = Inr body
       \<and> split_nl body =
           [''{1:F01UBSWCHZH80AXXXX0000000000}'',
            ''{2:O1031200UBSWCHZH80AXXXX0000000000}'',
            ''{4:'',
            '':20:REF001'',
            '':32A:240315USD1500.50'',
            '':50K:ANDRO AG /CH970020620625170160K'',
            '':59:ACME CORP /DE89370400440532013000'',
            '':70:'',
            '':86:Sender Details'',
            '' /BANK/UBS SWITZERLAND AG'',
            '' /ADDR/PARADEPLATZ 6, 8098, ZURICH, SWITZERLAND'',
            '' /ACCTNAME/ANDRO AG / FOR FURTHER FORSAN FOR FRUITS AND VEGETABLES EAST'',
            '' /ACCTIBAN/CH970020620625170160K'',
            ''-}''])"
proof -
  have 1: "amount scenario_payment = Some (AmountStr ''1500.5'')
      \<and> Decimal (AmountStr ''1500.5'') = Inr (Finite False 15005 (- 1))
      \<and> format_amount (Finite False 15005 (- 1)) (get_or (currency scenario_payment) ''USD'')
           = Inr ''1500.50''"
    by (simp add: scenario_payment_def Decimal_def Decimal_of_str_1500_5 format_amount_1500_5)
  have 2: "form_msg_type scenario_form = ''MT103'' \<and> form_mt_fields scenario_form = []
        \<and> Decimal_of_str (strip (form_amount_text scenario_form)) = Inr (Finite False 15005 (- 1))
        \<and> format_decimal (Finite False 15005 (- 1)) = Inr ''1500.50''"
    by (simp add: scenario_form_fields scenario_form_amount format_decimal_1500_5)
  note t = mt103_default_tags[of scenario_payment "AmountStr ''1500.5''" "Finite False 15005 (- 1)"
      "''1500.50''" reads_a scenario_form "Finite False 15005 (- 1)" "''1500.50''"
      "Inr \<circ> tag_of" compose_reads_a]
  from t 1 have a: "generate_mt103 reads_a scenario_payment =
      Inr (join_nl
        ([''{1:F01SWIFTSIMULATORXXXX0000000000}'',
          ''{2:O1031200SWIFTSIMULATORXXXX0000000000}'',
          ''{4:'',
          '':20:'' @ get_or (reference scenario_payment) (take 12 (upper (uuid_default reads_a))),
          '':23B:CRED'',
          '':32A:''
            @ (case fromisoformat (get_or (value_date scenario_payment) (isoformat (today_default reads_a))) of
                 Some d \<Rightarrow> strftime_yymmdd d
               | None \<Rightarrow> strftime_yymmdd (today_fallback reads_a))
            @ get_or (currency scenario_payment) ''USD'' @ ''1500.50'',
          '':50K:'' @ get_or (ordering_name scenario_payment) '''' @ '' /'' @ get_or (ordering_account scenario_payment) '''',
          '':59:'' @ get_or (beneficiary_name scenario_payment) '''' @ '' /''
            @ get_or (beneficiary_account scenario_payment) '''']
         @ (if truthy (remittance_info scenario_payment)
            then ['':70:'' @ replace_nl (get_or (remittance_info scenario_payment) '''')] else [])
         @ ['':71A:SHA'', ''-}'']))"
    by blast
  from t 2 have b: "compose (Inr \<circ> tag_of) compose_reads_a scenario_form =
        Inr (join_nl
          [''{1:F01'' @ form_sender_bic scenario_form @ ''XXXX0000000000}'',
           ''{2:O1031200'' @ form_sender_bic scenario_form @ ''XXXX0000000000}'',
           ''{4:'',
           '':20:'' @ (if form_reference scenario_form \<noteq> [] then form_reference scenario_form
                       else ''103'' @ strftime_compact (now_reference compose_reads_a)),
           '':32A:'' @ strftime_yymmdd (today_32a compose_reads_a) @ form_currency scenario_form @ ''1500.50'',
           '':50K:'' @ form_ordering_name scenario_form @ '' /'' @ form_ordering_account scenario_form,
           '':59:'' @ form_beneficiary_name scenario_form @ '' /'' @ form_beneficiary_account scenario_form,
           '':70:'' @ form_remittance scenario_form,
           '':86:Sender Details'',
           '' /BANK/'' @ form_sender_bank scenario_form,
           '' /ADDR/'' @ form_sender_addr scenario_form,
           '' /ACCTNAME/'' @ form_sender_acct_name scenario_form,
           '' /ACCTIBAN/'' @ form_sender_iban scenario_form,
           ''-}''])"
    by blast
  have c: "suffix ''USD1500.50'' '':32A:240315USD1500.50''"
    by (simp add: suffix_def)
  let ?L = "[''{1:F01SWIFTSIMULATORXXXX0000000000}'',
            ''{2:O1031200SWIFTSIMULATORXXXX0000000000}'',
            ''{4:'',
            '':20:REF001'',
            '':23B:CRED'',
            '':32A:240315USD1500.50'',
            '':50K:ANDRO AG /CH970020620625170160K'',
            '':59:ACME CORP /DE89370400440532013000'',
            '':71A:SHA'',
            ''-}'']"
  let ?M = "[''{1:F01UBSWCHZH80AXXXX0000000000}'',
            ''{2:O1031200UBSWCHZH80AXXXX0000000000}'',
            ''{4:'',
            '':20:REF001'',
            '':32A:240315USD1500.50'',
            '':50K:ANDRO AG /CH970020620625170160K'',
            '':59:ACME CORP /DE89370400440532013000'',
            '':70:'',
            '':86:Sender Details'',
            '' /BANK/UBS SWITZERLAND AG'',
            '' /ADDR/PARADEPLATZ 6, 8098, ZURICH, SWITZERLAND'',
            '' /ACCTNAME/ANDRO AG / FOR FURTHER FORSAN FOR FRUITS AND VEGETABLES EAST'',
            '' /ACCTIBAN/CH970020620625170160K'',
            ''-}'']"
  have a': "generate_mt103 reads_a scenario_payment = Inr (join_nl ?L)"
    unfolding a
    by (simp add: scenario_payment_def reads_a_def get_or_def truthy_def isoformat_2024_03_15
        fromisoformat_2024_03_15 strftime_2024_03_15 del: join_nl.simps)
  have tt: "strftime_yymmdd (today_32a compose_reads_a) = ''240315''"
    by (simp add: compose_reads_a_def strftime_2024_03_15)
  have b': "compose (Inr \<circ> tag_of) compose_reads_a scenario_form = Inr (join_nl ?M)"
    unfolding b scenario_form_fields tt by (simp del: join_nl.simps)
  have sl: "split_nl (join_nl ?L) = ?L"
    by (rule split_nl_join_nl) (simp_all add: newline_def)
  have sm: "split_nl (join_nl ?M) = ?M"
    by (rule split_nl_join_nl) (simp_all add: newline_def)
  from a' sl have A: "\<exists>out. generate_mt103 reads_a scenario_payment = Inr out \<and> split_nl out = ?L"
    by blast
  from b' sm have B: "\<exists>body. compose (Inr \<circ> tag_of) compose_reads_a scenario_form = Inr body
       \<and> split_nl body = ?M"
    by blast
  from A c B show ?thesis by (intro conjI)
qed

text \<open>
  The claim as stated fails on the Compose handler: for the scenario with an empty
  remittance text its MT103 has a \<open>:70:\<close> line, and neither \<open>:23B:CRED\<close> nor \<open>:71A:SHA\<close>.
\<close>

theorem compose_mt103_counterexample:
  "compose (Inr \<circ> tag_of) compose_reads_a scenario_form =
     Inr (join_nl
       [''{1:F01UBSWCHZH80AXXXX0000000000}'',
        ''{2:O1031200UBSWCHZH80AXXXX0000000000}'',
        ''{4:'',
        '':20:REF001'',
        '':32A:240315USD1500.50'',
        '':50K:ANDRO AG /CH970020620625170160K'',
        '':59:ACME CORP /DE89370400440532013000'',
        '':70:'',
        '':86:Sender Details'',
        '' /BANK/UBS SWITZERLAND AG'',
        '' /ADDR/PARADEPLATZ 6, 8098, ZURICH, SWITZERLAND'',
        '' /ACCTNAME/ANDRO AG / FOR FURTHER FORSAN FOR FRUITS AND VEGETABLES EAST'',
        '' /ACCTIBAN/CH970020620625170160K'',
        ''-}''])
   \<and> form_remittance scenario_form = []"
  using compose_scenario[of "Inr \<circ> tag_of"] scenario_form_fields(10) by (intro conjI)


section \<open>Message types outside the template table\<close>

text \<open>
  Claim C4, as the code has it. \<open>build_mt_message\<close> does not look the message type up: for
  every type, in the table or not, and an empty dictionary of tags it returns the complete
  envelope, with the type printed in block 2, the reference and the \<open>:86:\<close> trailer. The
  Compose handler sends every type outside the table to its last branch, which builds the
  pain.001 document. No path raises \<open>UnsupportedMessageType\<close>.
\<close>

theorem unknown_message_type_is_encoded:
  "build_mt_message now t [] si ref_opt =
     join_nl
       [''{1:F01'' @ get_or (bic si) ''UNKNOWN'' @ ''XXXX0000000000}'',
        ''{2:O'' @ t @ ''1200'' @ get_or (bic si) ''UNKNOWN'' @ ''XXXX0000000000}'',
        ''{4:'',
        '':20:'' @ (if truthy ref_opt then get_or ref_opt '''' else take 3 t @ strftime_compact now),
        '':86:Sender Details'',
        '' /BANK/'' @ str_of_get (bank_name si),
        '' /ADDR/'' @ str_of_get (bank_address si),
        '' /ACCTNAME/'' @ str_of_get (account_name si),
        '' /ACCTIBAN/'' @ str_of_get (account_iban si),
        ''-}'']
   \<and> (map_of MT_TEMPLATES (form_msg_type f) = None
        \<and> Decimal_of_str (strip (form_amount_text f)) = Inr amt \<longrightarrow>
        compose toprettyxml rd f =
          generate_pain001_xml toprettyxml (xml_reads rd)
            \<lparr>ordering_account = Some (form_ordering_account f),
             ordering_name = Some (form_ordering_name f),
             beneficiary_account = Some (form_beneficiary_account f),
             beneficiary_name = Some (form_beneficiary_name f),
             beneficiary_bic = None,
             amount = Some (AmountDecimal amt),
             currency = Some (form_currency f),
             value_date = Some (isoformat (today_value_date rd)),
             remittance_info = Some (form_remittance f),
             reference = Some (form_reference f)\<rparr>)"
proof (intro conjI impI)
  show "build_mt_message now t [] si ref_opt =
     join_nl
       [''{1:F01'' @ get_or (bic si) ''UNKNOWN'' @ ''XXXX0000000000}'',
        ''{2:O'' @ t @ ''1200'' @ get_or (bic si) ''UNKNOWN'' @ ''XXXX0000000000}'',
        ''{4:'',
        '':20:'' @ (if truthy ref_opt then get_or ref_opt '''' else take 3 t @ strftime_compact now),
        '':86:Sender Details'',
        '' /BANK/'' @ str_of_get (bank_name si),
        '' /ADDR/'' @ str_of_get (bank_address si),
        '' /ACCTNAME/'' @ str_of_get (account_name si),
        '' /ACCTIBAN/'' @ str_of_get (account_iban si),
        ''-}'']"
    unfolding build_mt_message_def mt_message_lines_def Let_def by simp
next
  assume h: "map_of MT_TEMPLATES (form_msg_type f) = None
        \<and> Decimal_of_str (strip (form_amount_text f)) = Inr amt"
  then have t: "form_msg_type f \<noteq> ''MT103''" "form_msg_type f \<noteq> ''MT199''"
    "form_msg_type f \<noteq> ''MT700''" "form_msg_type f \<noteq> ''MT760''" "form_msg_type f \<noteq> ''MT799''"
    by (simp_all add: map_of_MT_TEMPLATES_None)
  from h have d: "Decimal_of_str (strip (form_amount_text f)) = Inr amt" by simp
  show "compose toprettyxml rd f =
          generate_pain001_xml toprettyxml (xml_reads rd)
            \<lparr>ordering_account = Some (form_ordering_account f),
             ordering_name = Some (form_ordering_name f),
             beneficiary_account = Some (form_beneficiary_account f),
             beneficiary_name = Some (form_beneficiary_name f),
             beneficiary_bic = None,
             amount = Some (AmountDecimal amt),
             currency = Some (form_currency f),
             value_date = Some (isoformat (today_value_date rd)),
             remittance_info = Some (form_remittance f),
             reference = Some (form_reference f)\<rparr>"
    unfolding compose_def d sum.case using t by simp
qed

theorem unknown_message_type_witness:
  "map_of MT_TEMPLATES ''MT999'' = None
   \<and> compose (Inr \<circ> tag_of) compose_reads_a (scenario_form\<lparr>form_msg_type := ''MT999''\<rparr>)
       = Inr ''CstmrCdtTrfInitn''"
proof -
  let ?f = "scenario_form\<lparr>form_msg_type := ''MT999''\<rparr>"
  have n: "map_of MT_TEMPLATES ''MT999'' = None" by (simp add: MT_TEMPLATES_def)
  have h: "map_of MT_TEMPLATES (form_msg_type ?f) = None
        \<and> Decimal_of_str (strip (form_amount_text ?f)) = Inr (Finite False 15005 (- 1))"
    using n by (simp add: scenario_form_amount)
  let ?p = "\<lparr>ordering_account = Some (form_ordering_account ?f),
             ordering_name = Some (form_ordering_name ?f),
             beneficiary_account = Some (form_beneficiary_account ?f),
             beneficiary_name = Some (form_beneficiary_name ?f),
             beneficiary_bic = None,
             amount = Some (AmountDecimal (Finite False 15005 (- 1))),
             currency = Some (form_currency ?f),
             value_date = Some (isoformat (today_value_date compose_reads_a)),
             remittance_info = Some (form_remittance ?f),
             reference = Some (form_reference ?f)\<rparr>"
  from unknown_message_type_is_encoded[of _ _ _ _ ?f "Finite False 15005 (- 1)" "Inr \<circ> tag_of" compose_reads_a] h
  have c: "compose (Inr \<circ> tag_of) compose_reads_a ?f
           = generate_pain001_xml (Inr \<circ> tag_of) (xml_reads compose_reads_a) ?p"
    by blast
  from pain001_xml_tree_success[of ?p "Finite False 15005 (- 1)" "''1500.50''" "xml_reads compose_reads_a"]
  obtain doc where d: "pain001_xml_tree (xml_reads compose_reads_a) ?p = Inr doc"
    by (auto simp: format_decimal_1500_5)
  have "generate_pain001_xml (Inr \<circ> tag_of) (xml_reads compose_reads_a) ?p = Inr ''CstmrCdtTrfInitn''"
    unfolding generate_pain001_xml_def d using tag_of_root_xml[OF d] by simp
  with c n show ?thesis by simp
qed

text \<open>
  The claim as stated fails: \<open>MT999\<close> is not in the table, and with no tags supplied
  \<open>build_mt_message\<close> returns a message for it.
\<close>

theorem unknown_message_type_counterexample:
  "map_of MT_TEMPLATES ''MT999'' = None
   \<and> build_mt_message instant_a ''MT999'' [] SWIFT_SENDER_INFO_DEFAULT (Some ''REF001'') =
     join_nl
       [''{1:F01UBSWCHZH80AXXXX0000000000}'',
        ''{2:OMT9991200UBSWCHZH80AXXXX0000000000}'',
        ''{4:'',
        '':20:REF001'',
        '':86:Sender Details'',
        '' /BANK/UBS SWITZERLAND AG'',
        '' /ADDR/PARADEPLATZ 6, 8098, ZURICH, SWITZERLAND'',
        '' /ACCTNAME/ANDRO AG / FOR FURTHER FORSAN FOR FRUITS AND VEGETABLES EAST'',
        '' /ACCTIBAN/CH970020620625170160K'',
        ''-}'']"
  unfolding build_mt_message_def mt_message_lines_def Let_def
  by (simp add: MT_TEMPLATES_def SWIFT_SENDER_INFO_DEFAULT_def truthy_def get_or_def str_of_get_def
      del: join_nl.simps)


section \<open>Amounts that are not finite decimals\<close>

text \<open>
  Claim C5, evaluated on the code. The amount text \<open>abc\<close> makes both encoders fail with
  \<open>InvalidOperation\<close>, and an error is the whole result: no text comes with it. The amount
  text \<open>NaN\<close> cannot be parsed as a finite decimal either, but \<open>Decimal\<close> accepts it as a
  quiet NaN, \<open>quantize\<close> passes it on and \<open>format\<close> prints it: \<open>generate_mt103\<close> returns a
  complete message whose \<open>:32A:\<close> line ends in \<open>USDNaN\<close>, and the document of
  \<open>generate_pain001\<close> carries \<open>NaN\<close> in both \<open>CtrlSum\<close> elements and in \<open>InstdAmt\<close>.
\<close>

theorem invalid_amount_nan_is_encoded:
  "generate_mt103 rd (scenario_payment\<lparr>amount := Some (AmountStr ''abc'')\<rparr>) = Inl InvalidOperation
   \<and> generate_pain001 toprettyxml xrd (scenario_payment\<lparr>amount := Some (AmountStr ''abc'')\<rparr>)
       = Inl InvalidOperation
   \<and> Decimal (AmountStr ''NaN'') = Inr (NaN False False 0)
   \<and> generate_mt103 reads_a (scenario_payment\<lparr>amount := Some (AmountStr ''NaN'')\<rparr>)
       = Inr (join_nl
           [''{1:F01SWIFTSIMULATORXXXX0000000000}'',
            ''{2:O1031200SWIFTSIMULATORXXXX0000000000}'',
            ''{4:'',
            '':20:REF001'',
            '':23B:CRED'',
            '':32A:240315USDNaN'',
            '':50K:ANDRO AG /CH970020620625170160K'',
            '':59:ACME CORP /DE89370400440532013000'',
            '':71A:SHA'',
            ''-}''])
   \<and> (\<exists>doc. pain001_tree xml_reads_a (scenario_payment\<lparr>amount := Some (AmountStr ''NaN'')\<rparr>)
              = Inr doc
          \<and> texts_of ''CtrlSum'' doc = [Some ''NaN'', Some ''NaN'']
          \<and> texts_of ''InstdAmt'' doc = [Some ''NaN''])"
proof -
  have a: "generate_mt103 rd (scenario_payment\<lparr>amount := Some (AmountStr ''abc'')\<rparr>) = Inl InvalidOperation"
    by (simp add: generate_mt103_def mt103_lines_def Decimal_def Decimal_of_str_abc)
  have b: "generate_pain001 toprettyxml xrd (scenario_payment\<lparr>amount := Some (AmountStr ''abc'')\<rparr>)
       = Inl InvalidOperation"
    by (simp add: generate_pain001_def pain001_tree_def Decimal_def Decimal_of_str_abc)
  have c: "Decimal (AmountStr ''NaN'') = Inr (NaN False False 0)"
    by (simp add: Decimal_def Decimal_of_str_NaN)
  have d: "generate_mt103 reads_a (scenario_payment\<lparr>amount := Some (AmountStr ''NaN'')\<rparr>)
       = Inr (join_nl
           [''{1:F01SWIFTSIMULATORXXXX0000000000}'',
            ''{2:O1031200SWIFTSIMULATORXXXX0000000000}'',
            ''{4:'',
            '':20:REF001'',
            '':23B:CRED'',
            '':32A:240315USDNaN'',
            '':50K:ANDRO AG /CH970020620625170160K'',
            '':59:ACME CORP /DE89370400440532013000'',
            '':71A:SHA'',
            ''-}''])"
    unfolding generate_mt103_def
    by (simp add: mt103_lines_def scenario_payment_def reads_a_def c format_amount_NaN get_or_def
        isoformat_2024_03_15 fromisoformat_2024_03_15 strftime_2024_03_15 del: join_nl.simps)
  let ?p = "scenario_payment\<lparr>amount := Some (AmountStr ''NaN'')\<rparr>"
  have 1: "amount ?p = Some (AmountStr ''NaN'')" by simp
  have 3: "format_amount (NaN False False 0) (get_or (currency ?p) ''USD'') = Inr ''NaN''"
    by (rule format_amount_NaN)
  from pain001_tree_success[OF 1 c 3, of xml_reads_a]
  have e: "\<exists>doc. pain001_tree xml_reads_a ?p = Inr doc
          \<and> texts_of ''CtrlSum'' doc = [Some ''NaN'', Some ''NaN'']
          \<and> texts_of ''InstdAmt'' doc = [Some ''NaN'']"
    by blast
  from a b c d e show ?thesis by (intro conjI)
qed


section \<open>Caller tags and default tags\<close>

text \<open>
  Claim C6. In the Compose handler, for \<open>MT199\<close>, \<open>MT799\<close>, \<open>MT700\<close> and \<open>MT760\<close> with a valid
  amount text, the lines between the \<open>:20:\<close> line and the \<open>:86:\<close> trailer are exactly the
  caller's tag lines when the caller supplies any, and otherwise the single default line of
  the type (\<open>:79:\<close> for \<open>MT199\<close> and \<open>MT799\<close>, \<open>:77B:\<close> for \<open>MT700\<close>, \<open>:77U:\<close> for \<open>MT760\<close>)
  carrying the remittance text: the caller's dictionary replaces the default, it is not
  merged with it. For \<open>MT103\<close> the caller's dictionary is merged into the four defaults by
  \<open>dict.update\<close>: the defaults keep their places, a caller's value wins on a common key,
  and new keys follow.
\<close>

theorem overrides_replace_free_format_defaults:
  assumes "Decimal_of_str (strip (form_amount_text f)) = Inr amt"
  shows "(form_msg_type f = ''MT199'' \<or> form_msg_type f = ''MT799''
          \<or> form_msg_type f = ''MT700'' \<or> form_msg_type f = ''MT760'' \<longrightarrow>
          compose toprettyxml rd f =
            Inr (join_nl
              ([''{1:F01'' @ form_sender_bic f @ ''XXXX0000000000}'',
                ''{2:O'' @ drop 2 (form_msg_type f) @ ''1200'' @ form_sender_bic f
                  @ ''XXXX0000000000}'',
                ''{4:'',
                '':20:'' @ (if form_reference f \<noteq> [] then form_reference f
                            else drop 2 (form_msg_type f) @ strftime_compact (now_reference rd))]
               @ map (\<lambda>(k, v). k @ v)
                   (if form_mt_fields f \<noteq> [] then form_mt_fields f
                    else [(if form_msg_type f = ''MT700'' then '':77B:''
                           else if form_msg_type f = ''MT760'' then '':77U:'' else '':79:'',
                           form_remittance f)])
               @ ['':86:Sender Details'',
                  '' /BANK/'' @ form_sender_bank f,
                  '' /ADDR/'' @ form_sender_addr f,
                  '' /ACCTNAME/'' @ form_sender_acct_name f,
                  '' /ACCTIBAN/'' @ form_sender_iban f,
                  ''-}''])))
       \<and> (form_msg_type f = ''MT103'' \<and> format_decimal amt = Inr fa \<longrightarrow>
          compose toprettyxml rd f =
            Inr (join_nl
              ([''{1:F01'' @ form_sender_bic f @ ''XXXX0000000000}'',
                ''{2:O1031200'' @ form_sender_bic f @ ''XXXX0000000000}'',
                ''{4:'',
                '':20:'' @ (if form_reference f \<noteq> [] then form_reference f
                            else ''103'' @ strftime_compact (now_reference rd))]
               @ map (\<lambda>(k, v). k @ v)
                   (dict_update
                      [('':32A:'', strftime_yymmdd (today_32a rd) @ form_currency f @ fa),
                       ('':50K:'', form_ordering_name f @ '' /'' @ form_ordering_account f),
                       ('':59:'', form_beneficiary_name f @ '' /'' @ form_beneficiary_account f),
                       ('':70:'', form_remittance f)]
                      (form_mt_fields f))
               @ ['':86:Sender Details'',
                  '' /BANK/'' @ form_sender_bank f,
                  '' /ADDR/'' @ form_sender_addr f,
                  '' /ACCTNAME/'' @ form_sender_acct_name f,
                  '' /ACCTIBAN/'' @ form_sender_iban f,
                  ''-}''])))
       \<and> (distinct (map fst ov) \<longrightarrow> map_of (dict_update d ov) = map_of d ++ map_of ov)
       \<and> prefix (map fst d) (map fst (dict_update d ov))"
proof (intro conjI impI)
  assume "form_msg_type f = ''MT199'' \<or> form_msg_type f = ''MT799''
          \<or> form_msg_type f = ''MT700'' \<or> form_msg_type f = ''MT760''"
  from compose_free_format[OF this assms]
  show "compose toprettyxml rd f =
            Inr (join_nl
              ([''{1:F01'' @ form_sender_bic f @ ''XXXX0000000000}'',
                ''{2:O'' @ drop 2 (form_msg_type f) @ ''1200'' @ form_sender_bic f
                  @ ''XXXX0000000000}'',
                ''{4:'',
                '':20:'' @ (if form_reference f \<noteq> [] then form_reference f
                            else drop 2 (form_msg_type f) @ strftime_compact (now_reference rd))]
               @ map (\<lambda>(k, v). k @ v)
                   (if form_mt_fields f \<noteq> [] then form_mt_fields f
                    else [(if form_msg_type f = ''MT700'' then '':77B:''
                           else if form_msg_type f = ''MT760'' then '':77U:'' else '':79:'',
                           form_remittance f)])
               @ ['':86:Sender Details'',
                  '' /BANK/'' @ form_sender_bank f,
                  '' /ADDR/'' @ form_sender_addr f,
                  '' /ACCTNAME/'' @ form_sender_acct_name f,
                  '' /ACCTIBAN/'' @ form_sender_iban f,
                  ''-}'']))" .
next
  assume "form_msg_type f = ''MT103'' \<and> format_decimal amt = Inr fa"
  then have 1: "form_msg_type f = ''MT103''" and 2: "format_decimal amt = Inr fa" by simp_all
  from compose_MT103[OF 1 assms 2]
  show "compose toprettyxml rd f =
            Inr (join_nl
              ([''{1:F01'' @ form_sender_bic f @ ''XXXX0000000000}'',
                ''{2:O1031200'' @ form_sender_bic f @ ''XXXX0000000000}'',
                ''{4:'',
                '':20:'' @ (if form_reference f \<noteq> [] then form_reference f
                            else ''103'' @ strftime_compact (now_reference rd))]
               @ map (\<lambda>(k, v). k @ v)
                   (dict_update
                      [('':32A:'', strftime_yymmdd (today_32a rd) @ form_currency f @ fa),
                       ('':50K:'', form_ordering_name f @ '' /'' @ form_ordering_account f),
                       ('':59:'', form_beneficiary_name f @ '' /'' @ form_beneficiary_account f),
                       ('':70:'', form_remittance f)]
                      (form_mt_fields f))
               @ ['':86:Sender Details'',
                  '' /BANK/'' @ form_sender_bank f,
                  '' /ADDR/'' @ form_sender_addr f,
                  '' /ACCTNAME/'' @ form_sender_acct_name f,
                  '' /ACCTIBAN/'' @ form_sender_iban f,
                  ''-}'']))" .
next
  assume "distinct (map fst ov)"
  then show "map_of (dict_update d ov) = map_of d ++ map_of ov" by (rule map_of_dict_update)
next
  show "prefix (map fst d) (map fst (dict_update d ov))" by (rule keys_dict_update)
qed

theorem overrides_replace_witness:
  "compose (Inr \<circ> tag_of) compose_reads_a
      (scenario_form\<lparr>form_msg_type := ''MT199'', form_remittance := ''HELLO'',
                      form_mt_fields := [('':21:'', ''RELREF''), ('':79:'', ''ADVICE'')]\<rparr>)
     = Inr (join_nl
         [''{1:F01UBSWCHZH80AXXXX0000000000}'',
          ''{2:O1991200UBSWCHZH80AXXXX0000000000}'',
          ''{4:'',
          '':20:REF001'',
          '':21:RELREF'',
          '':79:ADVICE'',
          '':86:Sender Details'',
          '' /BANK/UBS SWITZERLAND AG'',
          '' /ADDR/PARADEPLATZ 6, 8098, ZURICH, SWITZERLAND'',
          '' /ACCTNAME/ANDRO AG / FOR FURTHER FORSAN FOR FRUITS AND VEGETABLES EAST'',
          '' /ACCTIBAN/CH970020620625170160K'',
          ''-}''])
   \<and> compose (Inr \<circ> tag_of) compose_reads_a
      (scenario_form\<lparr>form_msg_type := ''MT700'', form_remittance := ''HELLO''\<rparr>)
     = Inr (join_nl
         [''{1:F01UBSWCHZH80AXXXX0000000000}'',
          ''{2:O7001200UBSWCHZH80AXXXX0000000000}'',
          ''{4:'',
          '':20:REF001'',
          '':77B:HELLO'',
          '':86:Sender Details'',
          '' /BANK/UBS SWITZERLAND AG'',
          '' /ADDR/PARADEPLATZ 6, 8098, ZURICH, SWITZERLAND'',
          '' /ACCTNAME/ANDRO AG / FOR FURTHER FORSAN FOR FRUITS AND VEGETABLES EAST'',
          '' /ACCTIBAN/CH970020620625170160K'',
          ''-}''])
   \<and> compose (Inr \<circ> tag_of) compose_reads_a
      (scenario_form\<lparr>form_remittance := ''HELLO'',
                      form_mt_fields := [('':70:'', ''OVERRIDE''), ('':72:'', ''EXTRA'')]\<rparr>)
     = Inr (join_nl
         [''{1:F01UBSWCHZH80AXXXX0000000000}'',
          ''{2:O1031200UBSWCHZH80AXXXX0000000000}'',
          ''{4:'',
          '':20:REF001'',
          '':32A:240315USD1500.50'',
          '':50K:ANDRO AG /CH970020620625170160K'',
          '':59:ACME CORP /DE89370400440532013000'',
          '':70:OVERRIDE'',
          '':72:EXTRA'',
          '':86:Sender Details'',
          '' /BANK/UBS SWITZERLAND AG'',
          '' /ADDR/PARADEPLATZ 6, 8098, ZURICH, SWITZERLAND'',
          '' /ACCTNAME/ANDRO AG / FOR FURTHER FORSAN FOR FRUITS AND VEGETABLES EAST'',
          '' /ACCTIBAN/CH970020620625170160K'',
          ''-}''])
   \<and> map_of (dict_update [('':70:'', ''HELLO'')] [('':70:'', ''OVERRIDE''), ('':72:'', ''EXTRA'')])
       = map_of [('':70:'', ''HELLO'')] ++ map_of [('':70:'', ''OVERRIDE''), ('':72:'', ''EXTRA'')]"
proof -
  let ?f199 = "scenario_form\<lparr>form_msg_type := ''MT199'', form_remittance := ''HELLO'',
                      form_mt_fields := [('':21:'', ''RELREF''), ('':79:'', ''ADVICE'')]\<rparr>"
  let ?f700 = "scenario_form\<lparr>form_msg_type := ''MT700'', form_remittance := ''HELLO''\<rparr>"
  let ?f103 = "scenario_form\<lparr>form_remittance := ''HELLO'',
                      form_mt_fields := [('':70:'', ''OVERRIDE''), ('':72:'', ''EXTRA'')]\<rparr>"
  have amt: "Decimal_of_str (strip (form_amount_text ?f199)) = Inr (Finite False 15005 (- 1))"
    "Decimal_of_str (strip (form_amount_text ?f700)) = Inr (Finite False 15005 (- 1))"
    "Decimal_of_str (strip (form_amount_text ?f103)) = Inr (Finite False 15005 (- 1))"
    by (simp_all add: scenario_form_def strip_1500_5 Decimal_of_str_1500_5)
  have t: "strftime_yymmdd (today_32a compose_reads_a) = ''240315''"
    by (simp add: compose_reads_a_def strftime_2024_03_15)
  have dst: "distinct (map fst [('':70:'', ''OVERRIDE''), ('':72:'', ''EXTRA'')])" by simp
  note a = overrides_replace_free_format_defaults[OF amt(1), of "Inr \<circ> tag_of" compose_reads_a
      "''1500.50''" "[('':70:'', ''OVERRIDE''), ('':72:'', ''EXTRA'')]" "[('':70:'', ''HELLO'')]"]
  note b = overrides_replace_free_format_defaults[OF amt(2), of "Inr \<circ> tag_of" compose_reads_a
      "''1500.50''" "[]" "[]"]
  note c = overrides_replace_free_format_defaults[OF amt(3), of "Inr \<circ> tag_of" compose_reads_a
      "''1500.50''" "[]" "[]"]
  have 1: "compose (Inr \<circ> tag_of) compose_reads_a ?f199
     = Inr (join_nl
         [''{1:F01UBSWCHZH80AXXXX0000000000}'',
          ''{2:O1991200UBSWCHZH80AXXXX0000000000}'',
          ''{4:'',
          '':20:REF001'',
          '':21:RELREF'',
          '':79:ADVICE'',
          '':86:Sender Details'',
          '' /BANK/UBS SWITZERLAND AG'',
          '' /ADDR/PARADEPLATZ 6, 8098, ZURICH, SWITZERLAND'',
          '' /ACCTNAME/ANDRO AG / FOR FURTHER FORSAN FOR FRUITS AND VEGETABLES EAST'',
          '' /ACCTIBAN/CH970020620625170160K'',
          ''-}''])"
    using a by (simp add: scenario_form_def del: join_nl.simps)
  have 2: "compose (Inr \<circ> tag_of) compose_reads_a ?f700
     = Inr (join_nl
         [''{1:F01UBSWCHZH80AXXXX0000000000}'',
          ''{2:O7001200UBSWCHZH80AXXXX0000000000}'',
          ''{4:'',
          '':20:REF001'',
          '':77B:HELLO'',
          '':86:Sender Details'',
          '' /BANK/UBS SWITZERLAND AG'',
          '' /ADDR/PARADEPLATZ 6, 8098, ZURICH, SWITZERLAND'',
          '' /ACCTNAME/ANDRO AG / FOR FURTHER FORSAN FOR FRUITS AND VEGETABLES EAST'',
          '' /ACCTIBAN/CH970020620625170160K'',
          ''-}''])"
    using b by (simp add: scenario_form_def del: join_nl.simps)
  have 3: "compose (Inr \<circ> tag_of) compose_reads_a ?f103
     = Inr (join_nl
         [''{1:F01UBSWCHZH80AXXXX0000000000}'',
          ''{2:O1031200UBSWCHZH80AXXXX0000000000}'',
          ''{4:'',
          '':20:REF001'',
          '':32A:240315USD1500.50'',
          '':50K:ANDRO AG /CH970020620625170160K'',
          '':59:ACME CORP /DE89370400440532013000'',
          '':70:OVERRIDE'',
          '':72:EXTRA'',
          '':86:Sender Details'',
          '' /BANK/UBS SWITZERLAND AG'',
          '' /ADDR/PARADEPLATZ 6, 8098, ZURICH, SWITZERLAND'',
          '' /ACCTNAME/ANDRO AG / FOR FURTHER FORSAN FOR FRUITS AND VEGETABLES EAST'',
          '' /ACCTIBAN/CH970020620625170160K'',
          ''-}''])"
    using c by (simp add: scenario_form_def format_decimal_1500_5 t del: join_nl.simps)
  have 4: "map_of (dict_update [('':70:'', ''HELLO'')] [('':70:'', ''OVERRIDE''), ('':72:'', ''EXTRA'')])
       = map_of [('':70:'', ''HELLO'')] ++ map_of [('':70:'', ''OVERRIDE''), ('':72:'', ''EXTRA'')]"
    using a dst by blast
  from 1 2 3 4 show ?thesis by (intro conjI)
qed


section \<open>The remittance tag\<close>

text \<open>
  Claim C7, as the code has it. Whenever a payment's amount converts and formats,
  \<open>generate_mt103\<close> returns the join of the lines it has built. Among these lines exactly
  one starts with \<open>:70:\<close>, and it is \<open>:70:\<close> followed by the remittance text with every
  newline replaced by a space, when \<open>remittance_info\<close> is present and not empty; none does
  otherwise. The lines of the returned text are these lines only when none of them holds
  a newline of its own: the reference, the currency, the names and the accounts are copied
  as they are, and a newline in one of them starts a new line of the text. In the same way
  the tree that \<open>generate_pain001\<close> builds has exactly one \<open>RmtInf\<close> element, holding the
  text unchanged in \<open>Ustrd\<close>, when \<open>remittance_info\<close> is present and not empty, and none
  otherwise; what \<open>generate_pain001\<close> returns is what the printer makes of this tree,
  which may be an error.
\<close>

theorem remittance_tag_iff_nonempty:
  assumes "amount p = Some a" and "Decimal a = Inr amt"
    and "format_amount amt (get_or (currency p) ''USD'') = Inr fa"
  shows "\<exists>ls doc. mt103_lines rd p = Inr ls
           \<and> generate_mt103 rd p = Inr (join_nl ls)
           \<and> filter (prefix '':70:'') ls =
               (if truthy (remittance_info p)
                then ['':70:'' @ replace_nl (get_or (remittance_info p) '''')] else [])
           \<and> newline \<notin> set (replace_nl (get_or (remittance_info p) ''''))
           \<and> (list_all (\<lambda>l. newline \<notin> set l) ls \<longrightarrow>
                filter (prefix '':70:'') (split_nl (join_nl ls)) =
                  (if truthy (remittance_info p)
                   then ['':70:'' @ replace_nl (get_or (remittance_info p) '''')] else []))
           \<and> pain001_tree xrd p = Inr doc
           \<and> generate_pain001 toprettyxml xrd p = toprettyxml doc
           \<and> filter (\<lambda>el. tag_of el = ''RmtInf'') (elements doc) =
               (if truthy (remittance_info p)
                then [Element ''RmtInf'' [] None [leaf ''Ustrd'' (get_or (remittance_info p) '''')]]
                else [])"
proof -
  note l = mt103_lines_success[OF assms, of rd]
  define ls where "ls = projr (mt103_lines rd p)"
  have m: "mt103_lines rd p = Inr ls" unfolding ls_def l by simp
  have n: "ls \<noteq> []" unfolding ls_def l by simp
  have g: "generate_mt103 rd p = Inr (join_nl ls)"
    unfolding generate_mt103_def m by simp
  have f: "filter (prefix '':70:'') ls =
               (if truthy (remittance_info p)
                then ['':70:'' @ replace_nl (get_or (remittance_info p) '''')] else [])"
    unfolding ls_def l by simp
  have s: "list_all (\<lambda>l. newline \<notin> set l) ls \<longrightarrow>
                filter (prefix '':70:'') (split_nl (join_nl ls)) =
                  (if truthy (remittance_info p)
                   then ['':70:'' @ replace_nl (get_or (remittance_info p) '''')] else [])"
    using split_nl_join_nl[OF n] f by simp
  from pain001_tree_success[OF assms, of xrd] obtain doc where
    d: "pain001_tree xrd p = Inr doc"
       "filter (\<lambda>el. tag_of el = ''RmtInf'') (elements doc) =
               (if truthy (remittance_info p)
                then [Element ''RmtInf'' [] None [leaf ''Ustrd'' (get_or (remittance_info p) '''')]]
                else [])"
    by blast
  have x: "generate_pain001 toprettyxml xrd p = toprettyxml doc"
    unfolding generate_pain001_def d(1) by simp
  from m g f s d x newline_not_in_replace_nl show ?thesis by blast
qed

theorem remittance_tag_witness:
  "\<exists>ls doc. mt103_lines reads_a (scenario_payment\<lparr>remittance_info := Some (''INVOICE 42'' @ [newline] @ ''MARCH'')\<rparr>) = Inr ls
      \<and> list_all (\<lambda>l. newline \<notin> set l) ls
      \<and> filter (prefix '':70:'') ls = ['':70:INVOICE 42 MARCH'']
      \<and> filter (prefix '':70:'') (split_nl (join_nl ls)) = ['':70:INVOICE 42 MARCH'']
      \<and> pain001_tree xml_reads_a (scenario_payment\<lparr>remittance_info := Some (''INVOICE 42'' @ [newline] @ ''MARCH'')\<rparr>) = Inr doc
      \<and> generate_pain001 text_lines xml_reads_a
           (scenario_payment\<lparr>remittance_info := Some (''INVOICE 42'' @ [newline] @ ''MARCH'')\<rparr>)
          = text_lines doc
      \<and> filter (\<lambda>el. tag_of el = ''RmtInf'') (elements doc)
          = [Element ''RmtInf'' [] None [leaf ''Ustrd'' (''INVOICE 42'' @ [newline] @ ''MARCH'')]]"
proof -
  let ?p = "scenario_payment\<lparr>remittance_info := Some (''INVOICE 42'' @ [newline] @ ''MARCH'')\<rparr>"
  have 1: "amount ?p = Some (AmountStr ''1500.5'')" by (simp add: scenario_payment_def)
  have 2: "Decimal (AmountStr ''1500.5'') = Inr (Finite False 15005 (- 1))"
    by (simp add: Decimal_def Decimal_of_str_1500_5)
  have 3: "format_amount (Finite False 15005 (- 1)) (get_or (currency ?p) ''USD'') = Inr ''1500.50''"
    by (rule format_amount_1500_5)
  have 4: "mt103_lines reads_a ?p =
     Inr [''{1:F01SWIFTSIMULATORXXXX0000000000}'',
          ''{2:O1031200SWIFTSIMULATORXXXX0000000000}'',
          ''{4:'',
          '':20:REF001'',
          '':23B:CRED'',
          '':32A:240315USD1500.50'',
          '':50K:ANDRO AG /CH970020620625170160K'',
          '':59:ACME CORP /DE89370400440532013000'',
          '':70:INVOICE 42 MARCH'',
          '':71A:SHA'',
          ''-}'']"
    unfolding mt103_lines_success[OF 1 2 3]
    by (simp add: scenario_payment_def reads_a_def get_or_def truthy_def isoformat_2024_03_15
        fromisoformat_2024_03_15 strftime_2024_03_15 replace_nl_def newline_def)
  from remittance_tag_iff_nonempty[OF 1 2 3, of reads_a xml_reads_a text_lines]
  obtain ls doc where r: "mt103_lines reads_a ?p = Inr ls"
    "filter (prefix '':70:'') ls =
       (if truthy (remittance_info ?p)
        then ['':70:'' @ replace_nl (get_or (remittance_info ?p) '''')] else [])"
    "list_all (\<lambda>l. newline \<notin> set l) ls \<longrightarrow>
       filter (prefix '':70:'') (split_nl (join_nl ls)) =
         (if truthy (remittance_info ?p)
          then ['':70:'' @ replace_nl (get_or (remittance_info ?p) '''')] else [])"
    "pain001_tree xml_reads_a ?p = Inr doc"
    "filter (\<lambda>el. tag_of el = ''RmtInf'') (elements doc) =
       (if truthy (remittance_info ?p)
        then [Element ''RmtInf'' [] None [leaf ''Ustrd'' (get_or (remittance_info ?p) '''')]]
        else [])"
    "generate_pain001 text_lines xml_reads_a ?p = text_lines doc"
    by blast
  have t: "truthy (remittance_info ?p)" by (simp add: truthy_def)
  have e: "'':70:'' @ replace_nl (get_or (remittance_info ?p) '''') = '':70:INVOICE 42 MARCH''"
    by (simp add: get_or_def replace_nl_def newline_def)
  have g: "get_or (remittance_info ?p) '''' = ''INVOICE 42'' @ [newline] @ ''MARCH''"
    by (simp add: get_or_def)
  have ls: "ls = [''{1:F01SWIFTSIMULATORXXXX0000000000}'',
          ''{2:O1031200SWIFTSIMULATORXXXX0000000000}'',
          ''{4:'',
          '':20:REF001'',
          '':23B:CRED'',
          '':32A:240315USD1500.50'',
          '':50K:ANDRO AG /CH970020620625170160K'',
          '':59:ACME CORP /DE89370400440532013000'',
          '':70:INVOICE 42 MARCH'',
          '':71A:SHA'',
          ''-}'']"
    using r(1) 4 by simp
  have nl: "list_all (\<lambda>l. newline \<notin> set l) ls"
    unfolding ls by (simp add: newline_def)
  from r(2) have a: "filter (prefix '':70:'') ls = ['':70:INVOICE 42 MARCH'']"
    unfolding if_P[OF t] e .
  from r(3) nl have b: "filter (prefix '':70:'') (split_nl (join_nl ls)) = ['':70:INVOICE 42 MARCH'']"
    unfolding if_P[OF t] e by blast
  from r(5) have c: "filter (\<lambda>el. tag_of el = ''RmtInf'') (elements doc)
          = [Element ''RmtInf'' [] None [leaf ''Ustrd'' (''INVOICE 42'' @ [newline] @ ''MARCH'')]]"
    unfolding if_P[OF t] g .
  from r(1) nl a b r(4) r(6) c show ?thesis by blast
qed

text \<open>
  The \<open>:70:\<close> line of the returned text does not follow the remittance information alone.
  With no remittance information and the beneficiary account \<open>X\<close>, a newline and
  \<open>:70:FAKE\<close>, the account is copied into the \<open>:59:\<close> line as it is, and the text that
  \<open>generate_mt103\<close> returns has the line \<open>:70:FAKE\<close>.
\<close>

theorem remittance_tag_injection_counterexample:
  "remittance_info (scenario_payment\<lparr>beneficiary_account := Some (''X'' @ [newline] @ '':70:FAKE'')\<rparr>) = None
   \<and> generate_mt103 reads_a (scenario_payment\<lparr>beneficiary_account := Some (''X'' @ [newline] @ '':70:FAKE'')\<rparr>)
       = Inr (join_nl
            [''{1:F01SWIFTSIMULATORXXXX0000000000}'',
             ''{2:O1031200SWIFTSIMULATORXXXX0000000000}'',
             ''{4:'',
             '':20:REF001'',
             '':23B:CRED'',
             '':32A:240315USD1500.50'',
             '':50K:ANDRO AG /CH970020620625170160K'',
             '':59:ACME CORP /X'' @ [newline] @ '':70:FAKE'',
             '':71A:SHA'',
             ''-}''])
   \<and> filter (prefix '':70:'')
         (split_nl (join_nl
            [''{1:F01SWIFTSIMULATORXXXX0000000000}'',
             ''{2:O1031200SWIFTSIMULATORXXXX0000000000}'',
             ''{4:'',
             '':20:REF001'',
             '':23B:CRED'',
             '':32A:240315USD1500.50'',
             '':50K:ANDRO AG /CH970020620625170160K'',
             '':59:ACME CORP /X'' @ [newline] @ '':70:FAKE'',
             '':71A:SHA'',
             ''-}'']))
       = ['':70:FAKE'']"
proof -
  let ?p = "scenario_payment\<lparr>beneficiary_account := Some (''X'' @ [newline] @ '':70:FAKE'')\<rparr>"
  have 0: "remittance_info ?p = None" by (simp add: scenario_payment_def)
  have 1: "amount ?p = Some (AmountStr ''1500.5'')" by (simp add: scenario_payment_def)
  have 2: "Decimal (AmountStr ''1500.5'') = Inr (Finite False 15005 (- 1))"
    by (simp add: Decimal_def Decimal_of_str_1500_5)
  have 3: "format_amount (Finite False 15005 (- 1)) (get_or (currency ?p) ''USD'') = Inr ''1500.50''"
    by (rule format_amount_1500_5)
  have 4: "generate_mt103 reads_a ?p
       = Inr (join_nl
            [''{1:F01SWIFTSIMULATORXXXX0000000000}'',
             ''{2:O1031200SWIFTSIMULATORXXXX0000000000}'',
             ''{4:'',
             '':20:REF001'',
             '':23B:CRED'',
             '':32A:240315USD1500.50'',
             '':50K:ANDRO AG /CH970020620625170160K'',
             '':59:ACME CORP /X'' @ [newline] @ '':70:FAKE'',
             '':71A:SHA'',
             ''-}''])"
    unfolding generate_mt103_success[OF 1 2 3]
    by (simp add: scenario_payment_def reads_a_def get_or_def truthy_def isoformat_2024_03_15
        fromisoformat_2024_03_15 strftime_2024_03_15 del: join_nl.simps)
  have 5: "join_nl
            [''{1:F01SWIFTSIMULATORXXXX0000000000}'',
             ''{2:O1031200SWIFTSIMULATORXXXX0000000000}'',
             ''{4:'',
             '':20:REF001'',
             '':23B:CRED'',
             '':32A:240315USD1500.50'',
             '':50K:ANDRO AG /CH970020620625170160K'',
             '':59:ACME CORP /X'' @ [newline] @ '':70:FAKE'',
             '':71A:SHA'',
             ''-}'']
         = join_nl
            [''{1:F01SWIFTSIMULATORXXXX0000000000}'',
             ''{2:O1031200SWIFTSIMULATORXXXX0000000000}'',
             ''{4:'',
             '':20:REF001'',
             '':23B:CRED'',
             '':32A:240315USD1500.50'',
             '':50K:ANDRO AG /CH970020620625170160K'',
             '':59:ACME CORP /X'',
             '':70:FAKE'',
             '':71A:SHA'',
             ''-}'']"
    by simp
  have 6: "split_nl (join_nl
            [''{1:F01SWIFTSIMULATORXXXX0000000000}'',
             ''{2:O1031200SWIFTSIMULATORXXXX0000000000}'',
             ''{4:'',
             '':20:REF001'',
             '':23B:CRED'',
             '':32A:240315USD1500.50'',
             '':50K:ANDRO AG /CH970020620625170160K'',
             '':59:ACME CORP /X'',
             '':70:FAKE'',
             '':71A:SHA'',
             ''-}''])
         = [''{1:F01SWIFTSIMULATORXXXX0000000000}'',
             ''{2:O1031200SWIFTSIMULATORXXXX0000000000}'',
             ''{4:'',
             '':20:REF001'',
             '':23B:CRED'',
             '':32A:240315USD1500.50'',
             '':50K:ANDRO AG /CH970020620625170160K'',
             '':59:ACME CORP /X'',
             '':70:FAKE'',
             '':71A:SHA'',
             ''-}'']"
    by (rule split_nl_join_nl) (simp_all add: newline_def)
  have 7: "filter (prefix '':70:'')
         (split_nl (join_nl
            [''{1:F01SWIFTSIMULATORXXXX0000000000}'',
             ''{2:O1031200SWIFTSIMULATORXXXX0000000000}'',
             ''{4:'',
             '':20:REF001'',
             '':23B:CRED'',
             '':32A:240315USD1500.50'',
             '':50K:ANDRO AG /CH970020620625170160K'',
             '':59:ACME CORP /X'' @ [newline] @ '':70:FAKE'',
             '':71A:SHA'',
             ''-}'']))
       = ['':70:FAKE'']"
    unfolding 5 6 by simp
  from 0 4 7 show ?thesis by (intro conjI)
qed


section \<open>No hidden state\<close>




section \<open>The lines of the formal output\<close>

text \<open>
  Claim C9. The formal output is exactly the newline-join, in this order, of the banner
  line, an empty line, the heading of the header block, the message type, the reference
  made from the reading of the clock, the five sender fields, the selected account label,
  an empty line, the heading of the message text, the message body as given, an empty
  line, the two confirmation lines, an empty line, and the labelled start and end
  timestamps. \<open>build_formal_output\<close> and \<open>build_formal_text\<close> differ in the label of the
  selected account only.
\<close>

theorem formal_output_is_fixed_join:
  "build_formal_output now message_type message_body si start_ts end_ts account_number =
     ''INSTANT TYPE AND TRANSMISSION: INSTANT'' @ [newline]
     @ [newline]
     @ ''MESSAGE HEADER'' @ [newline]
     @ ''Message Type: '' @ message_type @ [newline]
     @ ''Reference: '' @ strftime_compact now @ [newline]
     @ ''Sender BIC: '' @ get_or (bic si) '''' @ [newline]
     @ ''Sender Bank: '' @ get_or (bank_name si) '''' @ [newline]
     @ ''Sender Address: '' @ get_or (bank_address si) '''' @ [newline]
     @ ''Account Name: '' @ get_or (account_name si) '''' @ [newline]
     @ ''Account IBAN: '' @ get_or (account_iban si) '''' @ [newline]
     @ ''Selected Account (from system): '' @ account_number @ [newline]
     @ [newline]
     @ ''MESSAGE TEXT'' @ [newline]
     @ message_body @ [newline]
     @ [newline]
     @ ''MESSAGE HAS BEEN TRANSMITTED SUCCESSFULLY'' @ [newline]
     @ ''CONFIRMED & RECEIVED'' @ [newline]
     @ [newline]
     @ ''Start Time: '' @ start_ts @ [newline]
     @ ''End Time:   '' @ end_ts
   \<and> build_formal_text now message_type message_body si start_ts end_ts account_number =
     ''INSTANT TYPE AND TRANSMISSION: INSTANT'' @ [newline]
     @ [newline]
     @ ''MESSAGE HEADER'' @ [newline]
     @ ''Message Type: '' @ message_type @ [newline]
     @ ''Reference: '' @ strftime_compact now @ [newline]
     @ ''Sender BIC: '' @ get_or (bic si) '''' @ [newline]
     @ ''Sender Bank: '' @ get_or (bank_name si) '''' @ [newline]
     @ ''Sender Address: '' @ get_or (bank_address si) '''' @ [newline]
     @ ''Account Name: '' @ get_or (account_name si) '''' @ [newline]
     @ ''Account IBAN: '' @ get_or (account_iban si) '''' @ [newline]
     @ ''Selected Account: '' @ account_number @ [newline]
     @ [newline]
     @ ''MESSAGE TEXT'' @ [newline]
     @ message_body @ [newline]
     @ [newline]
     @ ''MESSAGE HAS BEEN TRANSMITTED SUCCESSFULLY'' @ [newline]
     @ ''CONFIRMED & RECEIVED'' @ [newline]
     @ [newline]
     @ ''Start Time: '' @ start_ts @ [newline]
     @ ''End Time:   '' @ end_ts"
  by (simp add: build_formal_output_def build_formal_text_def)


section \<open>The currency argument\<close>

text \<open>
  Claim C10: the currency argument of \<open>format_amount\<close> never influences its result, which
  is also the result of \<open>format_decimal\<close> on the same amount.
\<close>

theorem format_amount_ignores_currency:
  "format_amount a c1 = format_amount a c2 \<and> format_amount a c1 = format_decimal a"
  by (simp add: format_amount_def format_decimal_def)

end
